theory Spec2Isabelle
  imports Main "HOL-Library.Multiset"
begin

section \<open>JavaScript values\<close>

text \<open>
  The routes keep every record as parsed JSON and read it by property name, so the
  embedding works on JSON values. Numbers are restricted to integers (the program
  only stores counts, sizes and millisecond time stamps). An object is the list of
  its own properties in insertion order, each key once.
\<close>

datatype jv =
    JUndefined
  | JNull
  | JBool bool
  | JNum int
  | JStr string
  | JArr "jv list"
  | JObj "(string \<times> jv) list"

type_synonym exn = string

text \<open>\<^verbatim>\<open>!!v\<close>\<close>

fun truthy :: "jv \<Rightarrow> bool" where
  "truthy JUndefined = False"
| "truthy JNull = False"
| "truthy (JBool b) = b"
| "truthy (JNum n) = (n \<noteq> 0)"
| "truthy (JStr s) = (s \<noteq> [])"
| "truthy (JArr xs) = True"
| "truthy (JObj kvs) = True"

text \<open>\<^verbatim>\<open>typeof v\<close>\<close>

fun typeof :: "jv \<Rightarrow> string" where
  "typeof JUndefined = ''undefined''"
| "typeof JNull = ''object''"
| "typeof (JBool b) = ''boolean''"
| "typeof (JNum n) = ''number''"
| "typeof (JStr s) = ''string''"
| "typeof (JArr xs) = ''object''"
| "typeof (JObj kvs) = ''object''"

text \<open>\<^verbatim>\<open>a || b\<close>\<close>

definition js_or :: "jv \<Rightarrow> jv \<Rightarrow> jv" where
  "js_or a b = (if truthy a then a else b)"

fun nullish :: "jv \<Rightarrow> bool" where
  "nullish JUndefined = True"
| "nullish JNull = True"
| "nullish v = False"

text \<open>
  Decimal notation of a number, as \<^verbatim>\<open>String(n)\<close> gives it for an integer below
  \<open>10\<^sup>2\<^sup>1\<close> in magnitude (from there on the language writes an exponent; the counts,
  sizes and time stamps of the program stay far below).
\<close>

fun digits :: "nat \<Rightarrow> string" where
  "digits n = (if n < 10 then [''0123456789'' ! n]
               else digits (n div 10) @ [''0123456789'' ! (n mod 10)])"

declare digits.simps [simp del]

definition show_int :: "int \<Rightarrow> string" where
  "show_int i = (if i < 0 then CHR ''-'' # digits (nat (- i)) else digits (nat i))"

fun join :: "string \<Rightarrow> string list \<Rightarrow> string" where
  "join sep [] = []"
| "join sep [s] = s"
| "join sep (s # t # ss) = s @ sep @ join sep (t # ss)"

text \<open>
  \<^verbatim>\<open>String(v)\<close>, which a template literal and \<^verbatim>\<open>+\<close> with a string apply:
  an array joins its elements with commas (null and undefined as the empty string),
  a plain object is \<^verbatim>\<open>[object Object]\<close>.
\<close>

fun to_str :: "jv \<Rightarrow> string" where
  "to_str JUndefined = ''undefined''"
| "to_str JNull = ''null''"
| "to_str (JBool b) = (if b then ''true'' else ''false'')"
| "to_str (JNum n) = show_int n"
| "to_str (JStr s) = s"
| "to_str (JArr xs) = join '','' (map (\<lambda>x. if nullish x then [] else to_str x) xs)"
| "to_str (JObj kvs) = ''[object Object]''"

text \<open>
  \<^verbatim>\<open>v.k\<close> and \<^verbatim>\<open>v[k]\<close> on a value that is neither null nor undefined: an
  object's own property, an array's element or length, a string's length, and
  undefined otherwise. The keys the program reads are never names of the built-in
  prototypes, so inherited properties are left out.
\<close>

fun get :: "jv \<Rightarrow> string \<Rightarrow> jv" where
  "get (JObj kvs) k = (case map_of kvs k of Some v \<Rightarrow> v | None \<Rightarrow> JUndefined)"
| "get (JArr xs) k =
     (if k = ''length'' then JNum (int (length xs))
      else (case find (\<lambda>i. digits i = k) [0 ..< length xs] of
              Some i \<Rightarrow> xs ! i
            | None \<Rightarrow> JUndefined))"
| "get (JStr s) k = (if k = ''length'' then JNum (int (length s)) else JUndefined)"
| "get v k = JUndefined"

text \<open>
  A property read where the source has no guard in front of it: reading from null
  or undefined throws a TypeError.
\<close>

definition typeError :: "jv \<Rightarrow> string \<Rightarrow> exn" where
  "typeError v k =
     ''Cannot read properties of '' @ (if v = JNull then ''null'' else ''undefined'') @
     '' (reading '' @ [CHR 0x27] @ k @ [CHR 0x27] @ '')''"

definition get_e :: "jv \<Rightarrow> string \<Rightarrow> exn + jv" where
  "get_e v k = (if nullish v then Inl (typeError v k) else Inr (get v k))"

text \<open>\<^verbatim>\<open>v?.k\<close>\<close>

definition get_opt :: "jv \<Rightarrow> string \<Rightarrow> jv" where
  "get_opt v k = (if nullish v then JUndefined else get v k)"

text \<open>
  \<^verbatim>\<open>a === b\<close>. Two arrays or objects are equal only as the same reference; the
  values the program compares with \<^verbatim>\<open>===\<close> are read from different places
  (a stored record against the session, or against another stored record), so a
  comparison of two compound values is false here.
\<close>

fun primitive :: "jv \<Rightarrow> bool" where
  "primitive (JArr xs) = False"
| "primitive (JObj kvs) = False"
| "primitive v = True"

definition strict_eq :: "jv \<Rightarrow> jv \<Rightarrow> bool" where
  "strict_eq a b = (primitive a \<and> a = b)"

text \<open>\<^verbatim>\<open>o.k = v\<close> on an object: the key keeps its place, a new key goes last.\<close>

fun obj_set :: "string \<Rightarrow> jv \<Rightarrow> (string \<times> jv) list \<Rightarrow> (string \<times> jv) list" where
  "obj_set k v [] = [(k, v)]"
| "obj_set k v ((k', v') # r) =
     (if k = k' then (k, v) # r else (k', v') # obj_set k v r)"

text \<open>
  \<^verbatim>\<open>t.k = v\<close> on a target that is neither null nor undefined. On a primitive
  it does nothing (the modules are not in strict mode). A named property put on an
  array is not part of what \<^verbatim>\<open>JSON.stringify\<close> writes, so the array's JSON
  value is unchanged (reading such a property back is outside the embedding).
\<close>

fun put :: "jv \<Rightarrow> string \<Rightarrow> jv \<Rightarrow> jv" where
  "put (JObj kvs) k v = JObj (obj_set k v kvs)"
| "put t k v = t"

text \<open>\<^verbatim>\<open>t.k = v\<close> on any target: on null or undefined it throws.\<close>

definition assign :: "jv \<Rightarrow> string \<Rightarrow> jv \<Rightarrow> exn + jv" where
  "assign t k v =
     (if nullish t then Inl (''Cannot set properties of undefined (setting '' @ k @ '')'')
      else Inr (put t k v))"

text \<open>\<^verbatim>\<open>Array.isArray(data) ? data : []\<close>\<close>

fun asArray :: "jv \<Rightarrow> jv list" where
  "asArray (JArr xs) = xs"
| "asArray v = []"

text \<open>\<^verbatim>\<open>{...v}\<close>: the own enumerable properties of the value spread.\<close>

fun spread :: "jv \<Rightarrow> (string \<times> jv) list" where
  "spread (JObj kvs) = kvs"
| "spread (JArr xs) = map (\<lambda>i. (digits i, xs ! i)) [0 ..< length xs]"
| "spread (JStr s) = map (\<lambda>i. (digits i, JStr [s ! i])) [0 ..< length s]"
| "spread v = []"

text \<open>\<^verbatim>\<open>Object.keys(v)\<close> on a value that is neither null nor undefined.\<close>

definition object_keys :: "jv \<Rightarrow> string list" where
  "object_keys v = map fst (spread v)"

section \<open>The platform\<close>

text \<open>
  What the runtime supplies and the repository does not define is a parameter:
  \<^verbatim>\<open>JSON.parse\<close> (which throws on malformed text), \<^verbatim>\<open>JSON.stringify\<close>,
  \<^verbatim>\<open>Date.parse\<close> and the conversion of a string to a number (\<open>None\<close> is NaN),
  \<^verbatim>\<open>Date.prototype.toISOString\<close> and the MD5 digest in hexadecimal.
\<close>

record platform =
  JSON_parse :: "string \<Rightarrow> exn + jv"
  JSON_stringify :: "jv \<Rightarrow> string"
  Date_parse :: "string \<Rightarrow> int option"
  to_number :: "string \<Rightarrow> int option"
  toISOString :: "int \<Rightarrow> string"
  md5_hex :: "string \<Rightarrow> string"

text \<open>
  The time value of \<^verbatim>\<open>new Date(v)\<close>: a string is parsed, a number is the time
  itself when it is within the 8.64e15 milliseconds around the epoch that a date can
  hold and NaN beyond, null is 0, undefined is NaN, any other value goes through its
  string.
\<close>

definition new_Date :: "platform \<Rightarrow> jv \<Rightarrow> int option" where
  "new_Date pf v =
     (case v of
        JUndefined \<Rightarrow> None
      | JNull \<Rightarrow> Some 0
      | JBool b \<Rightarrow> Some (if b then 1 else 0)
      | JNum n \<Rightarrow> if \<bar>n\<bar> \<le> 8640000000000000 then Some n else None
      | JStr s \<Rightarrow> Date_parse pf s
      | _ \<Rightarrow> Date_parse pf (to_str v))"

text \<open>
  \<^verbatim>\<open>xs.sort(cmp)\<close>. The sort is stable, and \<open>after a b\<close> says that
  \<^verbatim>\<open>cmp(a, b) > 0\<close>; a NaN from the comparator counts as 0. Where the comparator
  is a consistent order every stable sort returns this list. Where it is not (a date
  that does not parse makes the difference NaN) the language leaves the order to the
  implementation, and this is the order of an insertion sort.
\<close>

fun insert_by :: "('a \<Rightarrow> 'a \<Rightarrow> bool) \<Rightarrow> 'a \<Rightarrow> 'a list \<Rightarrow> 'a list" where
  "insert_by after x [] = [x]"
| "insert_by after x (y # ys) =
     (if after x y then y # insert_by after x ys else x # y # ys)"

fun js_sort :: "('a \<Rightarrow> 'a \<Rightarrow> bool) \<Rightarrow> 'a list \<Rightarrow> 'a list" where
  "js_sort after [] = []"
| "js_sort after (x # xs) = insert_by after x (js_sort after xs)"

text \<open>\<^verbatim>\<open>new Date(b) - new Date(a) > 0\<close>: false when either date is invalid.\<close>

fun later :: "int option \<Rightarrow> int option \<Rightarrow> bool" where
  "later (Some b) (Some a) = (a < b)"
| "later b a = False"

section \<open>The record store (fileUtils)\<close>

text \<open>
  A path holds a readable text file, something that exists but cannot be read, or
  nothing; a write to a path succeeds or throws (the directory cannot be made, the
  file cannot be written).
\<close>

datatype fnode = File string | Unreadable

record fsys =
  nodes :: "string \<Rightarrow> fnode option"
  writable :: "string \<Rightarrow> bool"

definition existsSync :: "fsys \<Rightarrow> string \<Rightarrow> bool" where
  "existsSync fs p = (nodes fs p \<noteq> None)"

definition readFileSync :: "fsys \<Rightarrow> string \<Rightarrow> exn + string" where
  "readFileSync fs p =
     (case nodes fs p of
        Some (File s) \<Rightarrow> Inr s
      | Some Unreadable \<Rightarrow> Inl ''EISDIR: illegal operation on a directory, read''
      | None \<Rightarrow> Inl ''ENOENT: no such file or directory'')"

definition writeFileSync :: "fsys \<Rightarrow> string \<Rightarrow> string \<Rightarrow> exn + fsys" where
  "writeFileSync fs p s =
     (if writable fs p then Inr (fs\<lparr>nodes := (nodes fs)(p \<mapsto> File s)\<rparr>)
      else Inl ''EACCES: permission denied'')"

text \<open>\<^verbatim>\<open>try { body } catch (error) { handler }\<close>\<close>

definition try_catch :: "exn + 'a \<Rightarrow> (exn \<Rightarrow> exn + 'a) \<Rightarrow> exn + 'a" where
  "try_catch body handler = (case body of Inl e \<Rightarrow> handler e | Inr v \<Rightarrow> Inr v)"

definition bind_e :: "exn + 'a \<Rightarrow> ('a \<Rightarrow> exn + 'b) \<Rightarrow> exn + 'b" where
  "bind_e m f = (case m of Inl e \<Rightarrow> Inl e | Inr v \<Rightarrow> f v)"

text \<open>
  \<open>loadJSON\<close>: a missing file is the empty object; the file is read and parsed,
  and whatever either step throws is caught and is the empty object too. The path
  is taken as already resolved.
\<close>

definition loadJSON :: "platform \<Rightarrow> fsys \<Rightarrow> string \<Rightarrow> exn + jv" where
  "loadJSON pf fs filePath =
     try_catch
       (if \<not> existsSync fs filePath then Inr (JObj [])
        else bind_e (readFileSync fs filePath) (\<lambda>data. JSON_parse pf data))
       (\<lambda>error. Inr (JObj []))"

text \<open>\<open>saveJSON\<close>: writes the value's JSON text and rethrows what the write throws.\<close>

definition saveJSON :: "platform \<Rightarrow> fsys \<Rightarrow> string \<Rightarrow> jv \<Rightarrow> exn + fsys" where
  "saveJSON pf fs filePath data =
     try_catch (writeFileSync fs filePath (JSON_stringify pf data)) (\<lambda>error. Inl error)"

definition PENDING_FORMS :: string where
  "PENDING_FORMS = ''./data/pending_forms.json''"

definition FORM_HISTORY :: string where
  "FORM_HISTORY = ''./data/form_history.json''"

definition CERTIFICATES :: string where
  "CERTIFICATES = ''./data/certificates.json''"

text \<open>
  How every route reads a collection:
  \<^verbatim>\<open>try { data = loadJSON(P); xs = Array.isArray(data) ? data : [] } catch { xs = [] }\<close>
\<close>

definition loadCollection :: "platform \<Rightarrow> fsys \<Rightarrow> string \<Rightarrow> jv list" where
  "loadCollection pf fs p =
     (case loadJSON pf fs p of Inl e \<Rightarrow> [] | Inr data \<Rightarrow> asArray data)"

section \<open>The employee routes\<close>

subsection \<open>The current case of an employee\<close>

text \<open>\<^verbatim>\<open>allowedStatuses.includes(v)\<close> for a list of string literals.\<close>

fun includes_str :: "string list \<Rightarrow> jv \<Rightarrow> bool" where
  "includes_str sts (JStr s) = (s \<in> set sts)"
| "includes_str sts v = False"

text \<open>
  The candidates of \<open>getLatestFormForEmployee\<close>: the variable \<open>employeeForms\<close>
  after both filters. \<open>None\<close> is the default \<^verbatim>\<open>allowedStatuses = null\<close>.
\<close>

definition employeeForms :: "jv list \<Rightarrow> jv \<Rightarrow> string list option \<Rightarrow> jv list" where
  "employeeForms allForms employeeId allowedStatuses =
     (let byEmployee =
            filter (\<lambda>f. truthy f \<and> strict_eq (get f ''employeeId'') employeeId) allForms
      in case allowedStatuses of
           None \<Rightarrow> byEmployee
         | Some sts \<Rightarrow> filter (\<lambda>f. includes_str sts (get f ''status'')) byEmployee)"

text \<open>\<^verbatim>\<open>new Date(f.submissionDate || f.lastUpdated)\<close>\<close>

definition formDate :: "platform \<Rightarrow> jv \<Rightarrow> int option" where
  "formDate pf f = new_Date pf (js_or (get f ''submissionDate'') (get f ''lastUpdated''))"

definition getLatestFormForEmployee ::
  "platform \<Rightarrow> jv list \<Rightarrow> jv \<Rightarrow> string list option \<Rightarrow> jv" where
  "getLatestFormForEmployee pf allForms employeeId allowedStatuses =
     (case js_sort (\<lambda>a b. later (formDate pf b) (formDate pf a))
             (employeeForms allForms employeeId allowedStatuses) of
        [] \<Rightarrow> JNull
      | latestForm # rest \<Rightarrow> js_or latestForm JNull)"

subsection \<open>Replies\<close>

text \<open>
  What a route answers: a status code with a JSON body, or the bytes of a file sent
  as a download under a file name. A route also leaves the store and the session's
  user behind.
\<close>

datatype response = Json nat jv | Download string string

record outcome =
  reply :: response
  disk :: fsys
  user :: jv

definition failure :: "nat \<Rightarrow> string \<Rightarrow> response" where
  "failure code msg = Json code (JObj [(''success'', JBool False), (''message'', JStr msg)])"

definition answer :: "response \<Rightarrow> fsys \<Rightarrow> jv \<Rightarrow> outcome" where
  "answer r fs u = \<lparr>reply = r, disk = fs, user = u\<rparr>"

subsection \<open>POST /submit-no-dues\<close>

definition activeStatuses :: "string list" where
  "activeStatuses =
     [''Pending'', ''pending'', ''Submitted to HOD'', ''Submitted to IT'', ''approved'']"

definition conflictMessage :: "jv \<Rightarrow> string" where
  "conflictMessage existingForm =
     ''You already have a '' @ to_str (get existingForm ''status'') @
     '' application ('' @ to_str (get existingForm ''formId'') @ '')''"

text \<open>
  The record the route creates. \<open>now\<close> is the clock's reading in milliseconds;
  the route reads the clock three times in a row, taken here as one reading.
\<close>

definition newFormId :: "int \<Rightarrow> string" where
  "newFormId now = ''F'' @ show_int now"

definition mkNewForm ::
  "platform \<Rightarrow> int \<Rightarrow> jv \<Rightarrow> jv \<Rightarrow> jv \<Rightarrow> jv \<Rightarrow> jv \<Rightarrow> jv \<Rightarrow> jv \<Rightarrow> jv" where
  "mkNewForm pf now name employeeId email department noDuesType reason file =
     JObj [(''formId'', JStr (newFormId now)),
           (''name'', name),
           (''employeeName'', name),
           (''employeeId'', employeeId),
           (''email'', email),
           (''department'', department),
           (''noDuesType'', noDuesType),
           (''reason'', reason),
           (''orderLetter'', get file ''filename''),
           (''status'', JStr ''pending''),
           (''submissionDate'', JStr (toISOString pf now)),
           (''submittedBy'', employeeId),
           (''lastUpdated'', JStr (toISOString pf now)),
           (''assignedForms'', JArr []),
           (''formResponses'', JObj []),
           (''remark'', JStr [])]"

text \<open>The employee id the submission is for.\<close>

definition submitEmployeeId :: "jv \<Rightarrow> jv \<Rightarrow> jv" where
  "submitEmployeeId body sessionUser =
     js_or (js_or (js_or (get body ''employeeId'') (get sessionUser ''id''))
                  (get sessionUser ''employeeId'')) (JStr [])"

definition submitName :: "jv \<Rightarrow> jv \<Rightarrow> jv" where
  "submitName body sessionUser =
     js_or (js_or (get body ''name'') (get sessionUser ''name'')) (JStr [])"

text \<open>
  The handler, from the request's body, the session's user and the uploaded file
  (\<open>JUndefined\<close> when the request has none).
\<close>

definition submit_no_dues ::
  "platform \<Rightarrow> int \<Rightarrow> fsys \<Rightarrow> jv \<Rightarrow> jv \<Rightarrow> jv \<Rightarrow> outcome" where
  "submit_no_dues pf now fs body sessionUser file =
     (if \<not> truthy body then answer (failure 400 ''Request body is missing'') fs sessionUser
      else if \<not> truthy sessionUser then answer (failure 401 ''Session not found'') fs sessionUser
      else if \<not> truthy file then
        answer (failure 400 ''Order letter file is required'') fs sessionUser
      else
        let name = submitName body sessionUser;
            employeeId = submitEmployeeId body sessionUser;
            email = js_or (get body ''email'') (JStr []);
            department = js_or (get body ''department'') (JStr []);
            noDuesType = js_or (get body ''noDuesType'') (JStr []);
            reason = js_or (get body ''reason'') (JStr [])
        in
        if \<not> truthy name \<or> \<not> truthy employeeId \<or> \<not> truthy email \<or>
           \<not> truthy department \<or> \<not> truthy noDuesType
        then answer (failure 400 ''Missing required fields'') fs sessionUser
        else
          let pendingForms = loadCollection pf fs PENDING_FORMS;
              existingForm =
                getLatestFormForEmployee pf pendingForms employeeId (Some activeStatuses)
          in
          if truthy existingForm
          then answer (failure 400 (conflictMessage existingForm)) fs sessionUser
          else
            let newForm =
                  mkNewForm pf now name employeeId email department noDuesType reason file
            in
            (case saveJSON pf fs PENDING_FORMS (JArr (pendingForms @ [newForm])) of
               Inl saveError \<Rightarrow> answer (failure 500 ''Failed to save form'') fs sessionUser
             | Inr fs' \<Rightarrow>
                 answer
                   (Json 200 (JObj [(''success'', JBool True),
                                    (''message'', JStr ''Application submitted successfully''),
                                    (''formId'', JStr (newFormId now)),
                                    (''status'', JStr ''pending'')]))
                   fs'
                   (put (put sessionUser ''formId'' (JStr (newFormId now)))
                        ''applicationStatus'' (JStr ''pending''))))"

subsection \<open>GET /previous-application\<close>

definition previous_application :: "platform \<Rightarrow> fsys \<Rightarrow> jv \<Rightarrow> response" where
  "previous_application pf fs sessionUser =
     (if \<not> truthy sessionUser then failure 401 ''Session expired''
      else
        let employeeId = js_or (get sessionUser ''id'') (get sessionUser ''employeeId'') in
        if \<not> truthy employeeId then failure 400 ''No employee ID found in session''
        else
          let pendingForms = loadCollection pf fs PENDING_FORMS;
              latestApp = getLatestFormForEmployee pf pendingForms employeeId None
          in
          if \<not> truthy latestApp
          then Json 200 (JObj [(''success'', JBool True),
                               (''hasApplication'', JBool False),
                               (''message'', JStr ''No applications found'')])
          else Json 200 (JObj [(''success'', JBool True),
                               (''hasApplication'', JBool True),
                               (''application'', latestApp)]))"

subsection \<open>POST /final-submit\<close>

text \<open>
  \<^verbatim>\<open>pendingForms.findIndex(f => f.formId === target)\<close>, counting from \<open>i\<close>:
  \<open>None\<close> is the result -1, and an entry that is null throws when its
  \<open>formId\<close> is read. The ids are compared as the primitive values that the
  routes store (strings); an id that is an array or an object is equal to no id here,
  where the source would find the entry holding that very object.
\<close>

fun findIndex_formId :: "jv list \<Rightarrow> jv \<Rightarrow> nat \<Rightarrow> exn + nat option" where
  "findIndex_formId [] target i = Inr None"
| "findIndex_formId (f # fs) target i =
     (if nullish f then Inl (typeError f ''formId'')
      else if strict_eq (get f ''formId'') target then Inr (Some i)
      else findIndex_formId fs target (Suc i))"

text \<open>\<^verbatim>\<open>!v || typeof v !== 'object'\<close>\<close>

definition notObject :: "jv \<Rightarrow> bool" where
  "notObject v = (\<not> truthy v \<or> typeof v \<noteq> ''object'')"

text \<open>\<^verbatim>\<open>form.formResponses.k = v\<close>: the object inside the form is changed in place.\<close>

definition setResponse :: "jv \<Rightarrow> string \<Rightarrow> jv \<Rightarrow> exn + jv" where
  "setResponse form k v =
     bind_e (assign (get form ''formResponses'') k v)
            (\<lambda>responses. Inr (put form ''formResponses'' responses))"

text \<open>
  The changes the handler makes to the form once the payloads have passed, in the
  order of the source.
\<close>

definition applyFinalSubmit ::
  "platform \<Rightarrow> int \<Rightarrow> jv \<Rightarrow> jv \<Rightarrow> jv \<Rightarrow> jv \<Rightarrow> jv \<Rightarrow> exn + jv" where
  "applyFinalSubmit pf now form disposalForm efileForm form365Transfer form365Disposal =
     (let form0 = (if \<not> truthy (get form ''formResponses'')
                   then put form ''formResponses'' (JObj []) else form)
      in
      bind_e (setResponse form0 ''disposalFormData'' disposalForm) (\<lambda>form1.
      bind_e (setResponse form1 ''efileFormData'' efileForm) (\<lambda>form2.
      bind_e (if truthy form365Transfer \<and> typeof form365Transfer = ''object''
              then setResponse form2 ''form365TransferData'' form365Transfer
              else Inr form2) (\<lambda>form3.
      bind_e (if truthy form365Disposal \<and> typeof form365Disposal = ''object''
              then setResponse form3 ''form365Data'' form365Disposal
              else Inr form3) (\<lambda>form4.
      Inr (put (put (put form4 ''status'' (JStr ''Submitted to HOD''))
                    ''finalSubmittedAt'' (JStr (toISOString pf now)))
               ''lastUpdated'' (JStr (toISOString pf now))))))))"

definition syncSessionFormId :: "jv \<Rightarrow> jv \<Rightarrow> jv" where
  "syncSessionFormId sessionUser form =
     (if \<not> strict_eq (get sessionUser ''formId'') (get form ''formId'')
      then put sessionUser ''formId'' (get form ''formId'') else sessionUser)"

text \<open>
  The handler. Its whole body stands in one \<^verbatim>\<open>try\<close>, whose \<^verbatim>\<open>catch\<close>
  answers 500 with the error's message.
\<close>

definition final_submit :: "platform \<Rightarrow> int \<Rightarrow> fsys \<Rightarrow> jv \<Rightarrow> jv \<Rightarrow> outcome" where
  "final_submit pf now fs body sessionUser =
     (if \<not> truthy sessionUser then answer (failure 401 ''Session expired'') fs sessionUser
      else
        let employeeId = js_or (get sessionUser ''id'') (get sessionUser ''employeeId'') in
        if \<not> truthy employeeId
        then answer (failure 400 ''No employee ID found in session'') fs sessionUser
        else
          let payload = js_or body (JObj []);
              disposalForm = get payload ''disposalForm'';
              efileForm = get payload ''efileForm'';
              form365Transfer = get payload ''form365Transfer'';
              form365Disposal = get payload ''form365Disposal'';
              pendingForms = loadCollection pf fs PENDING_FORMS;
              latestForm = getLatestFormForEmployee pf pendingForms employeeId None
          in
          (case (if truthy latestForm
                 then findIndex_formId pendingForms (get latestForm ''formId'') 0
                 else Inr None) of
             Inl err \<Rightarrow>
               answer (failure 500 (''Internal Server Error: '' @ err)) fs sessionUser
           | Inr None \<Rightarrow>
               answer (failure 404 ''No pending form found for this employee'') fs sessionUser
           | Inr (Some formIndex) \<Rightarrow>
               let form = pendingForms ! formIndex in
               if notObject disposalForm
               then answer (failure 400 ''Valid disposal form data is required'') fs sessionUser
               else if notObject efileForm
               then answer (failure 400 ''Valid e-file form data is required'') fs sessionUser
               else if notObject form365Transfer \<and> notObject form365Disposal
               then answer (failure 400 ''Valid Form 365 (Transfer or Disposal) data is required'')
                      fs sessionUser
               else
                 (case applyFinalSubmit pf now form disposalForm efileForm
                         form365Transfer form365Disposal of
                    Inl err \<Rightarrow>
                      answer (failure 500 (''Internal Server Error: '' @ err)) fs sessionUser
                  | Inr form' \<Rightarrow>
                      let sessionUser' = syncSessionFormId sessionUser form' in
                      (case saveJSON pf fs PENDING_FORMS
                              (JArr (pendingForms[formIndex := form'])) of
                         Inl saveError \<Rightarrow>
                           answer (failure 500 ''Failed to save form submission'')
                             fs sessionUser'
                       | Inr fs' \<Rightarrow>
                           answer
                             (Json 200
                                (JObj [(''success'', JBool True),
                                       (''message'', JStr ''Forms submitted to HOD for review''),
                                       (''formId'', get form' ''formId''),
                                       (''status'', JStr ''Submitted to HOD'')]))
                             fs' sessionUser'))))"

subsection \<open>The timeline\<close>

text \<open>\<^verbatim>\<open>v > 0\<close>\<close>

definition gt0 :: "platform \<Rightarrow> jv \<Rightarrow> bool" where
  "gt0 pf v =
     (case v of
        JUndefined \<Rightarrow> False
      | JNull \<Rightarrow> False
      | JBool b \<Rightarrow> b
      | JNum n \<Rightarrow> 0 < n
      | JStr s \<Rightarrow> (case to_number pf s of Some n \<Rightarrow> 0 < n | None \<Rightarrow> False)
      | _ \<Rightarrow> (case to_number pf (to_str v) of Some n \<Rightarrow> 0 < n | None \<Rightarrow> False))"

definition event :: "string \<Rightarrow> string \<Rightarrow> jv \<Rightarrow> string \<Rightarrow> jv \<Rightarrow> jv" where
  "event step title date status details =
     JObj [(''step'', JStr step), (''title'', JStr title), (''date'', date),
           (''status'', JStr status), (''details'', details)]"

text \<open>
  \<^verbatim>\<open>assignedForms.map(f => f.title).join(', ')\<close>: only an array has \<open>map\<close>,
  and an entry that is null throws.
\<close>

fun titles :: "jv list \<Rightarrow> exn + jv list" where
  "titles [] = Inr []"
| "titles (f # fs) =
     bind_e (get_e f ''title'') (\<lambda>t. bind_e (titles fs) (\<lambda>ts. Inr (t # ts)))"

definition assignedTitles :: "jv \<Rightarrow> exn + string" where
  "assignedTitles assignedForms =
     (case assignedForms of
        JArr fs \<Rightarrow>
          bind_e (titles fs)
            (\<lambda>ts. Inr (join '', '' (map (\<lambda>t. if nullish t then [] else to_str t) ts)))
      | _ \<Rightarrow> Inl ''formData.assignedForms.map is not a function'')"

text \<open>
  The events in the order the function pushes them, before the sort. \<open>now\<close> is
  the clock's reading, used only for the date of the last event when the case has
  no \<open>itProcessing.processedAt\<close>.
\<close>

definition timelineEvents :: "platform \<Rightarrow> int \<Rightarrow> jv \<Rightarrow> exn + jv list" where
  "timelineEvents pf now formData =
     (let submitted =
            (if truthy (get formData ''submissionDate'')
             then [event ''submitted'' ''Application Submitted'' (get formData ''submissionDate'')
                     ''completed''
                     (JStr (''Application '' @ to_str (get formData ''formId'') @
                            '' submitted for '' @ to_str (get formData ''noDuesType'') @
                            '' clearance''))]
             else []);
          reviewStatus =
            (if strict_eq (get formData ''status'') (JStr ''rejected'')
             then ''rejected'' else ''completed'');
          reviewed =
            (if \<not> strict_eq (get formData ''status'') (JStr ''pending'')
             then [event ''it_reviewed'' ''IT Initial Review'' (get formData ''lastUpdated'')
                     reviewStatus
                     (js_or (get formData ''remark'')
                        (JStr (if reviewStatus = ''rejected'' then ''Application rejected by IT''
                               else ''Application reviewed and approved by IT department'')))]
             else []);
          assignedForms = get formData ''assignedForms'';
          formResponses = get formData ''formResponses'';
          completed =
            (if truthy formResponses \<and> object_keys formResponses \<noteq> []
             then [event ''forms_completed'' ''Forms Completed''
                     (js_or (get formData ''finalSubmittedAt'') (get formData ''lastUpdated''))
                     ''completed''
                     (JStr (''Employee completed '' @
                            show_int (int (length (object_keys formResponses))) @
                            '' forms and submitted to HOD''))]
             else []);
          hodApproval = get formData ''hodApproval'';
          approved =
            (if truthy hodApproval
             then [event ''hod_approved'' ''HOD Approval'' (get hodApproval ''approvedAt'')
                     ''completed''
                     (JStr (''Approved by HOD: '' @ to_str (get hodApproval ''approvedBy'')))]
             else []);
          itProcessing = get formData ''itProcessing'';
          processed =
            (if truthy itProcessing
             then [event ''it_processing'' ''IT Final Processing''
                     (get itProcessing ''processedAt'')
                     (if strict_eq (get itProcessing ''action'') (JStr ''completed'')
                      then ''completed'' else ''rejected'')
                     (js_or (get itProcessing ''remarks'')
                        (JStr (''Forms '' @ to_str (get itProcessing ''action'') @ '' by '' @
                               to_str (get itProcessing ''processedBy''))))]
             else []);
          certificates = get formData ''certificates'';
          generated =
            (if strict_eq (get formData ''status'') (JStr ''IT Completed'') \<and> truthy certificates
             then [event ''certificates_generated'' ''Certificates Generated''
                     (js_or (get_opt itProcessing ''processedAt'') (JStr (toISOString pf now)))
                     ''completed''
                     (JStr (to_str (get certificates ''length'') @
                            '' digital certificates generated and ready for download''))]
             else [])
      in
      bind_e (if truthy assignedForms \<and> gt0 pf (get assignedForms ''length'')
              then bind_e (assignedTitles assignedForms)
                     (\<lambda>ts. Inr [event ''forms_assigned'' ''Forms Assigned''
                                   (get formData ''lastUpdated'') ''completed''
                                   (JStr (to_str (get assignedForms ''length'') @
                                          '' forms assigned: '' @ ts))])
              else Inr [])
        (\<lambda>assigned.
           Inr (submitted @ reviewed @ assigned @ completed @ approved @ processed @ generated)))"

definition eventDate :: "platform \<Rightarrow> jv \<Rightarrow> int option" where
  "eventDate pf e = new_Date pf (get e ''date'')"

text \<open>\<open>buildTimelineData\<close> on a case that is neither null nor undefined.\<close>

definition buildTimelineData :: "platform \<Rightarrow> int \<Rightarrow> jv \<Rightarrow> exn + jv list" where
  "buildTimelineData pf now formData =
     bind_e (timelineEvents pf now formData)
       (\<lambda>timeline. Inr (js_sort (\<lambda>a b. later (eventDate pf a) (eventDate pf b)) timeline))"

subsection \<open>Archiving a case\<close>

text \<open>\<^verbatim>\<open>{ ...base, k1: v1, ..., kn: vn }\<close>\<close>

definition object_with :: "jv \<Rightarrow> (string \<times> jv) list \<Rightarrow> jv" where
  "object_with base kvs = JObj (foldl (\<lambda>acc (k, v). obj_set k v acc) (spread base) kvs)"

definition preservedData :: "jv \<Rightarrow> jv" where
  "preservedData formData =
     JObj [(''certificates'', js_or (get formData ''certificates'') (JArr [])),
           (''hodApproval'', js_or (get formData ''hodApproval'') JNull),
           (''itProcessing'', js_or (get formData ''itProcessing'') JNull),
           (''assignedForms'', js_or (get formData ''assignedForms'') (JArr [])),
           (''formResponses'', js_or (get formData ''formResponses'') (JObj []))]"

definition newHistoryEntry :: "platform \<Rightarrow> int \<Rightarrow> jv \<Rightarrow> jv" where
  "newHistoryEntry pf now formData =
     object_with formData
       [(''completedAt'', JStr (toISOString pf now)),
        (''finalStatus'', get formData ''status''),
        (''historyType'', JStr ''completed_application''),
        (''preservedData'', preservedData formData)]"

text \<open>
  \<open>moveCompletedFormToHistory\<close>. The function logs \<open>formData.formId\<close> before its
  \<^verbatim>\<open>try\<close>, so a case that is null or undefined throws; everything after that is
  caught and answered with false.
\<close>

definition moveCompletedFormToHistory ::
  "platform \<Rightarrow> int \<Rightarrow> fsys \<Rightarrow> jv \<Rightarrow> jv \<Rightarrow> exn + bool \<times> fsys" where
  "moveCompletedFormToHistory pf now fs employeeId formData =
     bind_e (get_e formData ''formId'') (\<lambda>logged.
       let history = loadCollection pf fs FORM_HISTORY in
       (case saveJSON pf fs FORM_HISTORY (JArr (history @ [newHistoryEntry pf now formData])) of
          Inl error \<Rightarrow> Inr (False, fs)
        | Inr fs' \<Rightarrow> Inr (True, fs')))"

section \<open>The certificate generator (pdfGenerator)\<close>

subsection \<open>Sanitising text\<close>

text \<open>
  A character of a \<open>string\<close> stands for a code unit below 256; the program's
  identifiers and form types are ASCII.
\<close>

definition controlChar :: "char \<Rightarrow> bool" where
  "controlChar c =
     (let n = (of_char c :: nat) in n \<le> 8 \<or> n = 11 \<or> n = 12 \<or> (14 \<le> n \<and> n \<le> 31) \<or> n = 127)"

definition printableChar :: "char \<Rightarrow> bool" where
  "printableChar c = (let n = (of_char c :: nat) in (32 \<le> n \<and> n \<le> 126) \<or> 160 \<le> n)"

text \<open>
  \<^verbatim>\<open>s.replace(/<[^>]*>/g, '')\<close>: a \<^verbatim>\<open><\<close> with a \<^verbatim>\<open>>\<close> somewhere after
  it is dropped together with everything up to the first such \<^verbatim>\<open>>\<close>.
\<close>

function stripTags :: "string \<Rightarrow> string" where
  "stripTags [] = []"
| "stripTags (c # cs) =
     (if c = CHR ''<'' \<and> CHR ''>'' \<in> set cs
      then stripTags (tl (dropWhile (\<lambda>d. d \<noteq> CHR ''>'') cs))
      else c # stripTags cs)"
  by pat_completeness auto
termination
  by (relation "measure length")
     (auto simp: less_Suc_eq_le intro: order_trans [OF diff_le_self length_dropWhile_le])

text \<open>The white space left in a string of printable characters: space and no-break space.\<close>

definition spaceChar :: "char \<Rightarrow> bool" where
  "spaceChar c = (let n = (of_char c :: nat) in n = 32 \<or> n = 160)"

definition trim :: "string \<Rightarrow> string" where
  "trim s = rev (dropWhile spaceChar (rev (dropWhile spaceChar s)))"

definition sanitizeText :: "jv \<Rightarrow> string" where
  "sanitizeText text =
     (if \<not> truthy text then ''N/A''
      else
        let s0 = take 500 (to_str text);
            s1 = filter (\<lambda>c. \<not> controlChar c) s0;
            s2 = stripTags s1;
            s3 = filter printableChar s2;
            s4 = trim s3
        in if s4 = [] then ''N/A'' else s4)"

definition displayNames :: "(string \<times> string) list" where
  "displayNames =
     [(''disposalForm'', ''Disposal Form''),
      (''efile'', ''E-file Transfer Form''),
      (''efileForm'', ''E-file Transfer Form''),
      (''form365Disp'', ''Form 365 - Disposal''),
      (''form365Trans'', ''Form 365 - Transfer''),
      (''form365Transfer'', ''Form 365 - Transfer''),
      (''form365Disposal'', ''Form 365 - Disposal'')]"

text \<open>
  \<^verbatim>\<open>displayNames[formType] || sanitizeText(formType)\<close>, read over the names
  that the table itself holds.
\<close>

definition getFormDisplayName :: "jv \<Rightarrow> string" where
  "getFormDisplayName formType =
     (case map_of displayNames (to_str formType) of
        Some name \<Rightarrow> name
      | None \<Rightarrow> sanitizeText formType)"

subsection \<open>Generating the certificates\<close>

text \<open>
  What one run of the generator meets outside the repository's own code: whether the
  certificate directories can be made, the clock's reading and the random bytes when
  the file of a form type is named, the clock's reading when its record is written,
  what rendering the document into a path ends with (an error, or the size of the
  file on disk), what \<^verbatim>\<open>fs.stat\<close> reports, and the path functions.
\<close>

record pdf_env =
  dirs_ok :: bool
  named_at :: "string \<Rightarrow> int"
  randomBytes :: "string \<Rightarrow> string"
  finished_at :: "string \<Rightarrow> int"
  render :: "string \<Rightarrow> string \<Rightarrow> jv \<Rightarrow> exn + nat"
  stat_size :: "string \<Rightarrow> exn + nat"
  cert_dir :: string
  path_join :: "string \<Rightarrow> string \<Rightarrow> string"
  basename :: "string \<Rightarrow> string"

definition maxSize :: nat where
  "maxSize = 10 * 1024 * 1024"

text \<open>
  The file name of \<open>createFormCertificatePDF\<close>. The random id is computed there
  and is in scope, and the name does not use it.
\<close>

definition certificateFileName :: "platform \<Rightarrow> string \<Rightarrow> string \<Rightarrow> int \<Rightarrow> string \<Rightarrow> string" where
  "certificateFileName pf sanitizedFormId sanitizedFormType timestamp randomId =
     (let contentHash =
            take 8 (md5_hex pf (sanitizedFormId @ ''-'' @ sanitizedFormType @ ''-'' @
                                show_int timestamp))
      in sanitizedFormId @ ''_'' @ sanitizedFormType @ ''_'' @ show_int timestamp @ ''_'' @
         contentHash @ ''.pdf'')"

text \<open>The path at which \<open>createFormCertificatePDF\<close> opens its write stream.\<close>

definition certificatePath :: "platform \<Rightarrow> pdf_env \<Rightarrow> jv \<Rightarrow> string \<Rightarrow> string" where
  "certificatePath pf env formId formType =
     path_join env (cert_dir env)
       (certificateFileName pf (sanitizeText formId) (sanitizeText (JStr formType))
          (named_at env formType) (randomBytes env formType))"

text \<open>
  \<open>createFormCertificatePDF\<close>: the promise's outcome, the path or the error it
  rejects with. The time-out, a failure while the content is drawn, a stream error
  and the size limit during drawing are the renderer's errors.
\<close>

definition createFormCertificatePDF ::
  "platform \<Rightarrow> pdf_env \<Rightarrow> jv \<Rightarrow> string \<Rightarrow> jv \<Rightarrow> exn + string" where
  "createFormCertificatePDF pf env formId formType formData =
     (if sanitizeText formId = [] \<or> sanitizeText (JStr formType) = []
      then Inl ''Invalid form ID or type''
      else
        let filePath = certificatePath pf env formId formType in
        (case render env filePath formType formData of
           Inl err \<Rightarrow> Inl err
         | Inr fileSize \<Rightarrow>
             if fileSize = 0 then Inl ''PDF verification failed: Generated PDF file is empty''
             else if maxSize < fileSize
             then Inl ''PDF verification failed: Generated PDF exceeds size limit''
             else Inr filePath))"

definition validateFormData :: "jv \<Rightarrow> exn + bool" where
  "validateFormData formData =
     (if notObject formData then Inl ''Invalid form data provided'' else Inr True)"

definition validFormTypes :: "jv \<Rightarrow> string list" where
  "validFormTypes formResponses =
     filter (\<lambda>formType. truthy (get formResponses formType) \<and>
                         typeof (get formResponses formType) = ''object'')
       (object_keys formResponses)"

text \<open>
  What the promise of one form type is fulfilled with: the certificate, or the
  record of the failure that the callback's own \<^verbatim>\<open>catch\<close> builds.
\<close>

definition certificateFor :: "platform \<Rightarrow> pdf_env \<Rightarrow> jv \<Rightarrow> jv \<Rightarrow> string \<Rightarrow> jv" where
  "certificateFor pf env formId formResponses formType =
     (case bind_e (validateFormData (get formResponses formType)) (\<lambda>valid.
           bind_e (createFormCertificatePDF pf env formId formType
                     (get formResponses formType)) (\<lambda>pdfPath.
           bind_e (stat_size env pdfPath) (\<lambda>fileSize.
           Inr (JObj [(''formType'', JStr formType),
                      (''filename'', JStr (basename env pdfPath)),
                      (''filepath'', JStr pdfPath),
                      (''generatedAt'', JStr (toISOString pf (finished_at env formType))),
                      (''fileSize'', JNum (int fileSize)),
                      (''status'', JStr ''success'')])))) of
        Inr certificate \<Rightarrow> certificate
      | Inl certError \<Rightarrow>
          JObj [(''formType'', JStr formType),
                (''error'', JStr certError),
                (''status'', JStr ''failed''),
                (''generatedAt'', JStr (toISOString pf (finished_at env formType)))])"

text \<open>
  The run up to \<^verbatim>\<open>Promise.allSettled\<close>: the error thrown before any certificate
  is attempted, or the array \<open>results\<close> (every promise is fulfilled, since each
  callback catches its own errors).
\<close>

definition pipelineResults :: "platform \<Rightarrow> pdf_env \<Rightarrow> jv \<Rightarrow> jv \<Rightarrow> exn + jv list" where
  "pipelineResults pf env formId formResponses =
     (if \<not> truthy formId \<or> typeof formId \<noteq> ''string'' then Inl ''Invalid form ID provided''
      else if notObject formResponses then Inl ''Invalid form responses provided''
      else if \<not> dirs_ok env then Inl ''EACCES: permission denied, mkdir''
      else if validFormTypes formResponses = [] then Inl ''No valid form responses found''
      else Inr (map (certificateFor pf env formId formResponses)
                  (validFormTypes formResponses)))"



section \<open>The certificate routes\<close>

text \<open>
  \<^verbatim>\<open>xs.filter(p)\<close> and \<^verbatim>\<open>xs.find(p)\<close> with a callback that can throw: the
  entries are visited in order and the first throw ends the call.
\<close>

fun filter_e :: "('a \<Rightarrow> exn + bool) \<Rightarrow> 'a list \<Rightarrow> exn + 'a list" where
  "filter_e p [] = Inr []"
| "filter_e p (x # xs) =
     bind_e (p x) (\<lambda>keep. bind_e (filter_e p xs) (\<lambda>r. Inr (if keep then x # r else r)))"

fun find_e :: "('a \<Rightarrow> exn + bool) \<Rightarrow> 'a list \<Rightarrow> exn + 'a option" where
  "find_e p [] = Inr None"
| "find_e p (x # xs) = bind_e (p x) (\<lambda>hit. if hit then Inr (Some x) else find_e p xs)"

text \<open>\<^verbatim>\<open>v.employeeId === employeeId\<close> on an entry read without a guard.\<close>

definition ownedBy :: "jv \<Rightarrow> jv \<Rightarrow> exn + bool" where
  "ownedBy employeeId v = bind_e (get_e v ''employeeId'') (\<lambda>e. Inr (strict_eq e employeeId))"

text \<open>\<^verbatim>\<open>h.employeeId === employeeId && h.preservedData?.certificates\<close>\<close>

definition ownedWithCertificates :: "jv \<Rightarrow> jv \<Rightarrow> exn + bool" where
  "ownedWithCertificates employeeId h =
     bind_e (get_e h ''employeeId'')
       (\<lambda>e. Inr (strict_eq e employeeId \<and>
                  truthy (get_opt (get h ''preservedData'') ''certificates'')))"

definition historicalCertId :: "jv \<Rightarrow> jv \<Rightarrow> string" where
  "historicalCertId historyEntry formType =
     ''hist_'' @ to_str (get historyEntry ''formId'') @ ''_'' @ to_str formType"

subsection \<open>GET /certificates\<close>

definition activeView :: "jv \<Rightarrow> jv" where
  "activeView cert =
     object_with cert [(''source'', JStr ''active''),
                  (''displayName'', JStr (getFormDisplayName (get cert ''formType''))),
                  (''status'', JStr ''Active'')]"

text \<open>What the first \<^verbatim>\<open>try\<close> block leaves in \<open>allCertificates\<close>.\<close>

definition activeCertificates :: "platform \<Rightarrow> fsys \<Rightarrow> jv \<Rightarrow> jv list" where
  "activeCertificates pf fs employeeId =
     (case loadJSON pf fs CERTIFICATES of
        Inr (JArr data) \<Rightarrow>
          (case filter_e (ownedBy employeeId) data of
             Inl err \<Rightarrow> []
           | Inr owned \<Rightarrow> map activeView owned)
      | _ \<Rightarrow> [])"

text \<open>The object pushed for a certificate of a history entry.\<close>

definition historicalCertificate :: "jv \<Rightarrow> jv \<Rightarrow> jv" where
  "historicalCertificate historyEntry cert =
     JObj [(''id'', JStr (historicalCertId historyEntry (get cert ''formType''))),
           (''formId'', get historyEntry ''formId''),
           (''formType'', get cert ''formType''),
           (''filename'', get cert ''filename''),
           (''displayName'', JStr (getFormDisplayName (get cert ''formType''))),
           (''generatedAt'', get cert ''generatedAt''),
           (''employeeName'',
              js_or (get historyEntry ''employeeName'') (get historyEntry ''name'')),
           (''noDuesType'', get historyEntry ''noDuesType''),
           (''source'', JStr ''history''),
           (''status'', JStr ''Completed''),
           (''completedAt'', get historyEntry ''completedAt''),
           (''filepath'', get cert ''filepath'')]"

text \<open>Building it reads \<open>cert.formType\<close> first, which throws when the entry is null.\<close>

definition historyView :: "jv \<Rightarrow> jv \<Rightarrow> exn + jv" where
  "historyView historyEntry cert =
     bind_e (get_e cert ''formType'')
       (\<lambda>formType. Inr (historicalCertificate historyEntry cert))"

text \<open>
  The two nested \<^verbatim>\<open>forEach\<close> loops that push onto \<open>allCertificates\<close>. A throw
  ends them and is swallowed by the surrounding \<^verbatim>\<open>catch\<close>; what was pushed
  before it stays. The flag says whether the loop ran to its end.
\<close>

fun pushCertificates :: "jv \<Rightarrow> jv list \<Rightarrow> jv list \<Rightarrow> jv list \<times> bool" where
  "pushCertificates historyEntry [] acc = (acc, True)"
| "pushCertificates historyEntry (cert # certs) acc =
     (case historyView historyEntry cert of
        Inl err \<Rightarrow> (acc, False)
      | Inr v \<Rightarrow> pushCertificates historyEntry certs (acc @ [v]))"

fun pushHistory :: "jv list \<Rightarrow> jv list \<Rightarrow> jv list \<times> bool" where
  "pushHistory [] acc = (acc, True)"
| "pushHistory (historyEntry # entries) acc =
     (let certs = get (get historyEntry ''preservedData'') ''certificates'' in
      if truthy certs then
        (case certs of
           JArr cs \<Rightarrow>
             (case pushCertificates historyEntry cs acc of
                (acc', True) \<Rightarrow> pushHistory entries acc'
              | (acc', False) \<Rightarrow> (acc', False))
         | _ \<Rightarrow> (acc, False))
      else pushHistory entries acc)"

text \<open>What the second \<^verbatim>\<open>try\<close> block leaves in \<open>allCertificates\<close>.\<close>

definition withHistorical :: "platform \<Rightarrow> fsys \<Rightarrow> jv \<Rightarrow> jv list \<Rightarrow> jv list" where
  "withHistorical pf fs employeeId allCertificates =
     (case loadJSON pf fs FORM_HISTORY of
        Inr (JArr historyData) \<Rightarrow>
          (case filter_e (ownedWithCertificates employeeId) historyData of
             Inl err \<Rightarrow> allCertificates
           | Inr historicalEntries \<Rightarrow> fst (pushHistory historicalEntries allCertificates))
      | _ \<Rightarrow> allCertificates)"

text \<open>\<^verbatim>\<open>new Date(c.generatedAt || c.completedAt)\<close>\<close>

definition certDate :: "platform \<Rightarrow> jv \<Rightarrow> int option" where
  "certDate pf c = new_Date pf (js_or (get c ''generatedAt'') (get c ''completedAt''))"

definition listedCertificates :: "platform \<Rightarrow> fsys \<Rightarrow> jv \<Rightarrow> jv list" where
  "listedCertificates pf fs employeeId =
     js_sort (\<lambda>a b. later (certDate pf b) (certDate pf a))
       (withHistorical pf fs employeeId (activeCertificates pf fs employeeId))"

definition certificates_list :: "platform \<Rightarrow> fsys \<Rightarrow> jv \<Rightarrow> response" where
  "certificates_list pf fs sessionUser =
     (if \<not> truthy sessionUser then failure 401 ''Not authenticated''
      else
        let employeeId = js_or (get sessionUser ''id'') (get sessionUser ''employeeId'') in
        if \<not> truthy employeeId then failure 401 ''Employee ID not found in session''
        else Json 200 (JObj [(''success'', JBool True),
                             (''certificates'', JArr (listedCertificates pf fs employeeId))]))"

subsection \<open>GET /certificates/:certId/download\<close>

text \<open>The value of \<open>certificate\<close> after the look-up in the active store.\<close>

definition findActive :: "platform \<Rightarrow> fsys \<Rightarrow> jv \<Rightarrow> string \<Rightarrow> jv" where
  "findActive pf fs employeeId certId =
     (case loadJSON pf fs CERTIFICATES of
        Inr (JArr data) \<Rightarrow>
          (case find_e (\<lambda>cert. bind_e (get_e cert ''id'')
                          (\<lambda>i. if strict_eq i (JStr certId) then ownedBy employeeId cert
                                else Inr False)) data of
             Inl err \<Rightarrow> JNull
           | Inr None \<Rightarrow> JUndefined
           | Inr (Some cert) \<Rightarrow> cert)
      | _ \<Rightarrow> JNull)"

text \<open>\<^verbatim>\<open>for (const cert of v)\<close>: an array or a string can be iterated.\<close>

definition iterate :: "jv \<Rightarrow> exn + jv list" where
  "iterate v =
     (case v of
        JArr xs \<Rightarrow> Inr xs
      | JStr s \<Rightarrow> Inr (map (\<lambda>c. JStr [c]) s)
      | _ \<Rightarrow> Inl ''historyEntry.preservedData.certificates is not iterable'')"

fun searchCertificates :: "jv \<Rightarrow> string \<Rightarrow> jv list \<Rightarrow> exn + jv option" where
  "searchCertificates historyEntry certId [] = Inr None"
| "searchCertificates historyEntry certId (cert # certs) =
     bind_e (get_e cert ''formType'') (\<lambda>formType.
       if historicalCertId historyEntry formType = certId
       then Inr (Some (object_with cert
                         [(''id'', JStr (historicalCertId historyEntry formType)),
                          (''employeeId'', get historyEntry ''employeeId''),
                          (''source'', JStr ''history'')]))
       else searchCertificates historyEntry certId certs)"

fun searchHistory :: "jv \<Rightarrow> string \<Rightarrow> jv list \<Rightarrow> exn + jv option" where
  "searchHistory employeeId certId [] = Inr None"
| "searchHistory employeeId certId (historyEntry # entries) =
     bind_e (ownedWithCertificates employeeId historyEntry) (\<lambda>owned.
       if owned then
         bind_e (iterate (get (get historyEntry ''preservedData'') ''certificates'')) (\<lambda>certs.
         bind_e (searchCertificates historyEntry certId certs) (\<lambda>found.
           case found of
             Some certificate \<Rightarrow> Inr (Some certificate)
           | None \<Rightarrow> searchHistory employeeId certId entries))
       else searchHistory employeeId certId entries)"

text \<open>The value of \<open>certificate\<close> after the look-up in the history.\<close>

definition findCertificate :: "platform \<Rightarrow> fsys \<Rightarrow> jv \<Rightarrow> string \<Rightarrow> jv" where
  "findCertificate pf fs employeeId certId =
     (let certificate = findActive pf fs employeeId certId in
      if \<not> truthy certificate \<and> take 5 certId = ''hist_'' then
        (case loadJSON pf fs FORM_HISTORY of
           Inr (JArr historyData) \<Rightarrow>
             (case searchHistory employeeId certId historyData of
                Inr (Some found) \<Rightarrow> found
              | _ \<Rightarrow> certificate)
         | _ \<Rightarrow> certificate)
      else certificate)"

definition certificate_download :: "platform \<Rightarrow> fsys \<Rightarrow> jv \<Rightarrow> string \<Rightarrow> response" where
  "certificate_download pf fs sessionUser certId =
     (if \<not> truthy sessionUser then failure 401 ''Not authenticated''
      else
        let employeeId = js_or (get sessionUser ''id'') (get sessionUser ''employeeId'') in
        if \<not> truthy employeeId then failure 401 ''Employee ID not found in session''
        else
          let certificate = findCertificate pf fs employeeId certId in
          if \<not> truthy certificate then failure 404 ''Certificate not found''
          else if \<not> strict_eq (get certificate ''employeeId'') employeeId
          then failure 403 ''Access denied''
          else
            (case get certificate ''filepath'' of
               JStr filePath \<Rightarrow>
                 (case nodes fs filePath of
                    None \<Rightarrow> failure 404 ''Certificate file not found on server''
                  | Some Unreadable \<Rightarrow> failure 500 ''Error streaming certificate file''
                  | Some (File bytes) \<Rightarrow> Download (to_str (get certificate ''filename'')) bytes)
             | _ \<Rightarrow> failure 404 ''Certificate file not found on server''))"

section \<open>Notions of the specification and sample data\<close>

text \<open>
  A store that is absent or corrupt: no file, a file that cannot be read, or a file
  whose text does not parse.
\<close>

definition absent_or_corrupt :: "platform \<Rightarrow> fsys \<Rightarrow> string \<Rightarrow> bool" where
  "absent_or_corrupt pf fs p =
     (case nodes fs p of
        None \<Rightarrow> True
      | Some Unreadable \<Rightarrow> True
      | Some (File s) \<Rightarrow> isl (JSON_parse pf s))"

text \<open>The same disk with the text \<open>t\<close> stored at \<open>p\<close>.\<close>

definition with_file :: "fsys \<Rightarrow> string \<Rightarrow> string \<Rightarrow> fsys" where
  "with_file fs p t = fs\<lparr>nodes := (nodes fs)(p \<mapsto> File t)\<rparr>"

text \<open>
  The active statuses in the specification's words: pending in any letter case,
  approved, Submitted to HOD, Submitted to IT.
\<close>

definition lower_char :: "char \<Rightarrow> char" where
  "lower_char c =
     (case List.find (\<lambda>(u, l). u = c)
             (zip ''ABCDEFGHIJKLMNOPQRSTUVWXYZ'' ''abcdefghijklmnopqrstuvwxyz'') of
        Some (u, l) \<Rightarrow> l
      | None \<Rightarrow> c)"

definition spec_active_status :: "string \<Rightarrow> bool" where
  "spec_active_status s =
     (map lower_char s = ''pending'' \<or> s = ''approved'' \<or> s = ''Submitted to HOD'' \<or>
      s = ''Submitted to IT'')"

text \<open>
  A platform for the concrete examples. Its parser knows the texts of a table, its
  dates are three days of January 2024, and its JSON text is compact. The theorems
  hold for every platform; this one only supplies inputs.
\<close>

fun sample_json :: "jv \<Rightarrow> string" where
  "sample_json JUndefined = ''null''"
| "sample_json JNull = ''null''"
| "sample_json (JBool b) = (if b then ''true'' else ''false'')"
| "sample_json (JNum n) = show_int n"
| "sample_json (JStr s) = CHR 0x22 # s @ [CHR 0x22]"
| "sample_json (JArr xs) = ''['' @ join '','' (map sample_json xs) @ '']''"
| "sample_json (JObj kvs) =
     ''{'' @ join '','' (map (\<lambda>kv. CHR 0x22 # fst kv @ [CHR 0x22] @ '':'' @ sample_json (snd kv)) kvs)
     @ ''}''"

definition sample_dates :: "(string \<times> int) list" where
  "sample_dates =
     [(''2024-01-01T00:00:00.000Z'', 1704067200000),
      (''2024-01-02T00:00:00.000Z'', 1704153600000),
      (''2024-01-03T00:00:00.000Z'', 1704240000000)]"

definition sample_platform :: "(string \<times> jv) list \<Rightarrow> platform" where
  "sample_platform texts =
     \<lparr>JSON_parse = (\<lambda>s. case map_of texts s of
                           Some v \<Rightarrow> Inr v
                         | None \<Rightarrow> Inl ''Unexpected token in JSON''),
      JSON_stringify = sample_json,
      Date_parse = map_of sample_dates,
      to_number = (\<lambda>s. None),
      toISOString = (\<lambda>t. case List.find (\<lambda>(s, u). u = t) sample_dates of
                             Some (s, u) \<Rightarrow> s
                           | None \<Rightarrow> ''1970-01-01T00:00:00.000Z''),
      md5_hex = (\<lambda>s. ''d41d8cd98f00b204e9800998ecf8427e'')\<rparr>"

text \<open>A disk that holds the given texts and accepts every write.\<close>

definition sample_disk :: "(string \<times> string) list \<Rightarrow> fsys" where
  "sample_disk files = \<lparr>nodes = map_option File \<circ> map_of files, writable = (\<lambda>p. True)\<rparr>"

text \<open>A stored case as the submission route writes it, reduced to the fields read here.\<close>

definition sample_case :: "string \<Rightarrow> string \<Rightarrow> string \<Rightarrow> string \<Rightarrow> jv" where
  "sample_case formId employeeId status submissionDate =
     JObj [(''formId'', JStr formId), (''employeeId'', JStr employeeId),
           (''status'', JStr status), (''submissionDate'', JStr submissionDate),
           (''lastUpdated'', JStr submissionDate),
           (''assignedForms'', JArr []), (''formResponses'', JObj [])]"

text \<open>
  A generator environment for the examples: the renderer fails with a time-out for
  the listed form types and writes 2048 bytes otherwise, every file is named at the
  same millisecond, and the random bytes are taken from the form type.
\<close>

definition sample_pdf_env :: "string list \<Rightarrow> pdf_env" where
  "sample_pdf_env failing =
     \<lparr>dirs_ok = True,
      named_at = (\<lambda>formType. 1704240000000),
      randomBytes = (\<lambda>formType. formType),
      finished_at = (\<lambda>formType. 1704240000000),
      render = (\<lambda>filePath formType formData.
                  if formType \<in> set failing then Inl ''PDF generation timeout'' else Inr 2048),
      stat_size = (\<lambda>filePath. Inr 2048),
      cert_dir = ''public/certificates'',
      path_join = (\<lambda>dir name. dir @ ''/'' @ name),
      basename = (\<lambda>path. rev (takeWhile (\<lambda>c. c \<noteq> CHR ''/'') (rev path)))\<rparr>"

text \<open>
  The first and the fifth event of \<open>timelineEvents\<close>, named so that the theorems
  about the timeline can speak of them.
\<close>

definition submittedEvent :: "jv \<Rightarrow> jv" where
  "submittedEvent f =
     event ''submitted'' ''Application Submitted'' (get f ''submissionDate'') ''completed''
       (JStr (''Application '' @ to_str (get f ''formId'') @ '' submitted for '' @
              to_str (get f ''noDuesType'') @ '' clearance''))"

definition approvedEvent :: "jv \<Rightarrow> jv" where
  "approvedEvent f =
     event ''hod_approved'' ''HOD Approval'' (get (get f ''hodApproval'') ''approvedAt'')
       ''completed''
       (JStr (''Approved by HOD: '' @ to_str (get (get f ''hodApproval'') ''approvedBy'')))"


subsection \<open>The outcome of one entry\<close>







section \<open>The record store is total\<close>

lemma loadJSON_value: "\<exists>v. loadJSON pf fs p = Inr v"
  by (auto simp: loadJSON_def try_catch_def bind_e_def split: sum.splits)

lemma loadJSON_unusable:
  "absent_or_corrupt pf fs p \<Longrightarrow> loadJSON pf fs p = Inr (JObj [])"
  by (auto simp: absent_or_corrupt_def loadJSON_def try_catch_def existsSync_def
        readFileSync_def bind_e_def split: option.splits fnode.splits sum.splits)

lemma loadJSON_with_file_same:
  "JSON_parse pf t = Inr v \<Longrightarrow> loadJSON pf (with_file fs p t) p = Inr v"
  by (simp add: with_file_def loadJSON_def try_catch_def existsSync_def
        readFileSync_def bind_e_def)

lemma loadJSON_with_file_other:
  "q \<noteq> p \<Longrightarrow> loadJSON pf (with_file fs p t) q = loadJSON pf fs q"
  by (simp add: with_file_def loadJSON_def try_catch_def existsSync_def
        readFileSync_def bind_e_def)

lemma loadCollection_unusable:
  "absent_or_corrupt pf fs p \<Longrightarrow> loadCollection pf fs p = []"
  by (simp add: loadCollection_def loadJSON_unusable)

lemma loadCollection_with_file_same:
  "JSON_parse pf t = Inr (JArr xs) \<Longrightarrow> loadCollection pf (with_file fs p t) p = xs"
  by (simp add: loadCollection_def loadJSON_with_file_same)

lemma loadCollection_with_file_other:
  "q \<noteq> p \<Longrightarrow> loadCollection pf (with_file fs p t) q = loadCollection pf fs q"
  by (simp add: loadCollection_def loadJSON_with_file_other)

lemma saveJSON_eq:
  "saveJSON pf fs p v =
     (if writable fs p then Inr (with_file fs p (JSON_stringify pf v))
      else Inl ''EACCES: permission denied'')"
  by (simp add: saveJSON_def writeFileSync_def try_catch_def with_file_def)

lemma writable_with_file: "writable (with_file fs p t) = writable fs"
  by (simp add: with_file_def)

lemma paths_distinct:
  "CERTIFICATES \<noteq> FORM_HISTORY" "FORM_HISTORY \<noteq> CERTIFICATES"
  "PENDING_FORMS \<noteq> FORM_HISTORY" "PENDING_FORMS \<noteq> CERTIFICATES"
  by (simp_all add: CERTIFICATES_def FORM_HISTORY_def PENDING_FORMS_def)

lemma pending_empty_store:
  assumes "absent_or_corrupt pf fs p" and "JSON_parse pf t = Inr (JArr [])"
  shows "loadCollection pf (with_file fs p t) p = loadCollection pf fs p"
  using assms loadCollection_with_file_same [of pf t "[]" fs p]
  by (simp add: loadCollection_unusable)

lemma submit_empty_store:
  assumes "absent_or_corrupt pf fs PENDING_FORMS" and "JSON_parse pf t = Inr (JArr [])"
  shows "reply (submit_no_dues pf now (with_file fs PENDING_FORMS t) body u file)
       = reply (submit_no_dues pf now fs body u file)"
  unfolding submit_no_dues_def pending_empty_store [OF assms] Let_def
  by (simp add: saveJSON_eq writable_with_file answer_def)

lemma previous_empty_store:
  assumes "absent_or_corrupt pf fs PENDING_FORMS" and "JSON_parse pf t = Inr (JArr [])"
  shows "previous_application pf (with_file fs PENDING_FORMS t) u
       = previous_application pf fs u"
  unfolding previous_application_def pending_empty_store [OF assms] by (rule refl)

lemma final_empty_store:
  assumes "absent_or_corrupt pf fs PENDING_FORMS" and "JSON_parse pf t = Inr (JArr [])"
  shows "reply (final_submit pf now (with_file fs PENDING_FORMS t) body u)
       = reply (final_submit pf now fs body u)"
  unfolding final_submit_def pending_empty_store [OF assms]
  using assms
  by (simp add: loadCollection_unusable
        getLatestFormForEmployee_def employeeForms_def answer_def Let_def)

lemma activeCertificates_empty_store:
  assumes "absent_or_corrupt pf fs CERTIFICATES" and "JSON_parse pf t = Inr (JArr [])"
  shows "activeCertificates pf (with_file fs CERTIFICATES t) e = activeCertificates pf fs e"
  using assms loadJSON_with_file_same [of pf t "JArr []" fs CERTIFICATES]
  by (simp add: activeCertificates_def loadJSON_unusable)

lemma activeCertificates_other_store:
  "p \<noteq> CERTIFICATES \<Longrightarrow>
   activeCertificates pf (with_file fs p t) e = activeCertificates pf fs e"
  by (simp add: activeCertificates_def loadJSON_with_file_other)

lemma withHistorical_empty_store:
  assumes "absent_or_corrupt pf fs FORM_HISTORY" and "JSON_parse pf t = Inr (JArr [])"
  shows "withHistorical pf (with_file fs FORM_HISTORY t) e acc = withHistorical pf fs e acc"
  using assms loadJSON_with_file_same [of pf t "JArr []" fs FORM_HISTORY]
  by (simp add: withHistorical_def loadJSON_unusable)

lemma withHistorical_other_store:
  "p \<noteq> FORM_HISTORY \<Longrightarrow>
   withHistorical pf (with_file fs p t) e acc = withHistorical pf fs e acc"
  by (simp add: withHistorical_def loadJSON_with_file_other)

lemma list_empty_store:
  assumes "p = CERTIFICATES \<or> p = FORM_HISTORY"
    and "absent_or_corrupt pf fs p" and "JSON_parse pf t = Inr (JArr [])"
  shows "certificates_list pf (with_file fs p t) u = certificates_list pf fs u"
proof -
  have "listedCertificates pf (with_file fs p t) e = listedCertificates pf fs e" for e
    using assms
    by (auto simp: listedCertificates_def activeCertificates_empty_store
          activeCertificates_other_store withHistorical_empty_store
          withHistorical_other_store paths_distinct)
  then show ?thesis by (simp add: certificates_list_def Let_def)
qed

text \<open>
  Claim C10. \<open>loadJSON\<close> returns a value for every disk and path and never
  throws; a file that is missing, unreadable or not JSON gives the empty object. The
  routes keep the loaded value only when it is an array, so on such a store they read
  the empty collection: putting a file with the text of the empty array in its place
  changes no reply of the submission, previous-application, final-submit and
  certificate-list routes.
\<close>

theorem record_store_load_total:
  "(\<exists>v. loadJSON pf fs p = Inr v) \<and>
   (absent_or_corrupt pf fs p \<longrightarrow>
      loadJSON pf fs p = Inr (JObj []) \<and> loadCollection pf fs p = []) \<and>
   (absent_or_corrupt pf fs p \<and> JSON_parse pf t = Inr (JArr []) \<longrightarrow>
      loadCollection pf (with_file fs p t) p = loadCollection pf fs p) \<and>
   (absent_or_corrupt pf fs PENDING_FORMS \<and> JSON_parse pf t = Inr (JArr []) \<longrightarrow>
      reply (submit_no_dues pf now (with_file fs PENDING_FORMS t) body u file)
        = reply (submit_no_dues pf now fs body u file) \<and>
      previous_application pf (with_file fs PENDING_FORMS t) u
        = previous_application pf fs u \<and>
      reply (final_submit pf now (with_file fs PENDING_FORMS t) body u)
        = reply (final_submit pf now fs body u)) \<and>
   ((p = CERTIFICATES \<or> p = FORM_HISTORY) \<and> absent_or_corrupt pf fs p \<and>
    JSON_parse pf t = Inr (JArr []) \<longrightarrow>
      certificates_list pf (with_file fs p t) u = certificates_list pf fs u)"
  using loadJSON_value [of pf fs p] loadJSON_unusable [of pf fs p]
    loadCollection_unusable [of pf fs p] pending_empty_store [of pf fs p t]
    submit_empty_store [of pf fs t now body u "file"] previous_empty_store [of pf fs t u]
    final_empty_store [of pf fs t now body u] list_empty_store [of p pf fs t u]
  by blast

theorem record_store_load_total_witness:
  "absent_or_corrupt (sample_platform [(''[]'', JArr [])])
     (sample_disk [(PENDING_FORMS, ''[{'')]) PENDING_FORMS \<and>
   JSON_parse (sample_platform [(''[]'', JArr [])]) ''[]'' = Inr (JArr []) \<and>
   absent_or_corrupt (sample_platform [(''[]'', JArr [])])
     (sample_disk [(PENDING_FORMS, ''[{'')]) CERTIFICATES \<and>
   loadJSON (sample_platform [(''[]'', JArr [])])
     (sample_disk [(PENDING_FORMS, ''[{'')]) PENDING_FORMS = Inr (JObj []) \<and>
   loadCollection (sample_platform [(''[]'', JArr [])])
     (with_file (sample_disk [(PENDING_FORMS, ''[{'')]) PENDING_FORMS ''[]'') PENDING_FORMS = [] \<and>
   previous_application (sample_platform [(''[]'', JArr [])])
     (with_file (sample_disk [(PENDING_FORMS, ''[{'')]) PENDING_FORMS ''[]'')
     (JObj [(''id'', JStr ''E1'')])
   = previous_application (sample_platform [(''[]'', JArr [])])
     (sample_disk [(PENDING_FORMS, ''[{'')]) (JObj [(''id'', JStr ''E1'')]) \<and>
   certificates_list (sample_platform [(''[]'', JArr [])])
     (with_file (sample_disk [(PENDING_FORMS, ''[{'')]) CERTIFICATES ''[]'')
     (JObj [(''id'', JStr ''E1'')])
   = certificates_list (sample_platform [(''[]'', JArr [])])
     (sample_disk [(PENDING_FORMS, ''[{'')]) (JObj [(''id'', JStr ''E1'')])"
proof -
  have a: "absent_or_corrupt (sample_platform [(''[]'', JArr [])])
     (sample_disk [(PENDING_FORMS, ''[{'')]) PENDING_FORMS"
    by (simp add: absent_or_corrupt_def sample_platform_def sample_disk_def PENDING_FORMS_def)
  have b: "JSON_parse (sample_platform [(''[]'', JArr [])]) ''[]'' = Inr (JArr [])"
    by (simp add: sample_platform_def)
  have c: "absent_or_corrupt (sample_platform [(''[]'', JArr [])])
     (sample_disk [(PENDING_FORMS, ''[{'')]) CERTIFICATES"
    by (simp add: absent_or_corrupt_def sample_platform_def sample_disk_def PENDING_FORMS_def
          CERTIFICATES_def)
  show ?thesis
    using a b c
      record_store_load_total [of "sample_platform [(''[]'', JArr [])]"
        "sample_disk [(PENDING_FORMS, ''[{'')]" PENDING_FORMS "''[]''" _ _ "JObj [(''id'', JStr ''E1'')]"]
      record_store_load_total [of "sample_platform [(''[]'', JArr [])]"
        "sample_disk [(PENDING_FORMS, ''[{'')]" CERTIFICATES "''[]''" _ _ "JObj [(''id'', JStr ''E1'')]"]
    by simp
qed

section \<open>The current case\<close>

lemma mset_pair_cases:
  assumes "mset xs = {#a, b#}"
  shows "xs = [a, b] \<or> xs = [b, a]"
proof -
  from assms have "size (mset xs) = 2" by simp
  then have "length xs = 2" by simp
  then obtain x y where xs: "xs = [x, y]"
    by (cases xs; cases "tl xs") auto
  with assms have "{#x, y#} = {#a, b#}" by simp
  then have "(x = a \<and> y = b) \<or> (x = b \<and> y = a)"
    by (auto simp: add_eq_conv_ex)
  with xs show ?thesis by auto
qed

lemma employeeForms_truthy: "f \<in> set (employeeForms allForms e st) \<Longrightarrow> truthy f"
  by (auto simp: employeeForms_def Let_def split: option.splits)

lemma mset_employeeForms:
  "mset allForms' = mset allForms \<Longrightarrow>
   mset (employeeForms allForms' e st) = mset (employeeForms allForms e st)"
  by (simp add: employeeForms_def Let_def split: option.splits)

lemma formDate_submission:
  "truthy (get f ''submissionDate'') \<Longrightarrow>
   formDate pf f = new_Date pf (get f ''submissionDate'')"
  by (simp add: formDate_def js_or_def)

lemma latest_of_pair:
  assumes m: "mset (employeeForms allForms e st) = {#a, b#}"
    and a: "truthy (get a ''submissionDate'')" "new_Date pf (get a ''submissionDate'') = Some t1"
    and b: "truthy (get b ''submissionDate'')" "new_Date pf (get b ''submissionDate'') = Some t2"
    and lt: "t1 < t2"
  shows "getLatestFormForEmployee pf allForms e st = b"
proof -
  have da: "formDate pf a = Some t1" and db: "formDate pf b = Some t2"
    using a b by (simp_all add: formDate_submission)
  have "b \<in># mset (employeeForms allForms e st)" using m by simp
  then have tb: "truthy b" by (auto dest: employeeForms_truthy)
  from mset_pair_cases [OF m] show ?thesis
    using da db lt tb by (auto simp: getLatestFormForEmployee_def js_or_def)
qed

lemma latest_none:
  "employeeForms allForms e st = [] \<Longrightarrow> getLatestFormForEmployee pf allForms e st = JNull"
  by (simp add: getLatestFormForEmployee_def)

lemma set_insert_by: "set (insert_by r x xs) = insert x (set xs)"
  by (induction xs) auto

lemma set_js_sort: "set (js_sort r xs) = set xs"
  by (induction xs) (auto simp: set_insert_by)

lemma js_sort_Nil_iff: "js_sort r xs = [] \<longleftrightarrow> xs = []"
  using set_js_sort [of r xs] by (metis set_empty)

lemma latest_null_iff:
  "getLatestFormForEmployee pf allForms e st = JNull \<longleftrightarrow> employeeForms allForms e st = []"
proof
  assume n: "getLatestFormForEmployee pf allForms e st = JNull"
  show "employeeForms allForms e st = []"
  proof (rule ccontr)
    assume ne: "employeeForms allForms e st \<noteq> []"
    let ?s = "js_sort (\<lambda>a b. later (formDate pf b) (formDate pf a)) (employeeForms allForms e st)"
    from ne have "?s \<noteq> []" by (simp add: js_sort_Nil_iff)
    then obtain f r where s: "?s = f # r" by (cases ?s) auto
    then have "f \<in> set ?s" by simp
    then have "truthy f" by (auto simp: set_js_sort dest: employeeForms_truthy)
    with s n show False by (auto simp: getLatestFormForEmployee_def js_or_def)
  qed
qed (rule latest_none)

lemma previous_none:
  assumes "truthy u" and "truthy (js_or (get u ''id'') (get u ''employeeId''))"
    and "employeeForms (loadCollection pf fs PENDING_FORMS)
           (js_or (get u ''id'') (get u ''employeeId'')) None = []"
  shows "previous_application pf fs u =
         Json 200 (JObj [(''success'', JBool True), (''hasApplication'', JBool False),
                         (''message'', JStr ''No applications found'')])"
  using assms by (simp add: previous_application_def Let_def latest_none)


lemma final_submit_none:
  assumes "truthy u" and "truthy (js_or (get u ''id'') (get u ''employeeId''))"
    and "employeeForms (loadCollection pf fs PENDING_FORMS)
           (js_or (get u ''id'') (get u ''employeeId'')) None = []"
  shows "final_submit pf now fs body u =
         answer (failure 404 ''No pending form found for this employee'') fs u"
  using assms by (simp add: final_submit_def Let_def latest_none)

text \<open>
  Claim C2, as the code has it. When the cases of an employee that pass the optional
  status filter are two cases whose submission dates are t1 < t2,
  \<open>getLatestFormForEmployee\<close> returns the one dated t2, and it does so for every
  reordering of the collection. It returns null exactly when no case passes the
  filters. The callers do not agree on what null means: the previous-application
  route answers it with a successful reply saying that there is no application, and
  the final-submit route answers it with the error 404, whatever the payload, and
  leaves the disk and the session as they are.
\<close>

theorem latest_case_resolution:
  "(mset (employeeForms allForms e st) = {#a, b#} \<and>
    truthy (get a ''submissionDate'') \<and> new_Date pf (get a ''submissionDate'') = Some t1 \<and>
    truthy (get b ''submissionDate'') \<and> new_Date pf (get b ''submissionDate'') = Some t2 \<and>
    t1 < t2 \<longrightarrow>
      getLatestFormForEmployee pf allForms e st = b \<and>
      (\<forall>allForms'. mset allForms' = mset allForms \<longrightarrow>
         getLatestFormForEmployee pf allForms' e st = b)) \<and>
   (getLatestFormForEmployee pf allForms e st = JNull \<longleftrightarrow>
      employeeForms allForms e st = []) \<and>
   (truthy u \<and> truthy (js_or (get u ''id'') (get u ''employeeId'')) \<and>
    getLatestFormForEmployee pf (loadCollection pf fs PENDING_FORMS)
      (js_or (get u ''id'') (get u ''employeeId'')) None = JNull \<longrightarrow>
      previous_application pf fs u =
        Json 200 (JObj [(''success'', JBool True), (''hasApplication'', JBool False),
                        (''message'', JStr ''No applications found'')]) \<and>
      final_submit pf now fs body u =
        \<lparr>reply = Json 404 (JObj [(''success'', JBool False),
                                 (''message'',
                                    JStr ''No pending form found for this employee'')]),
         disk = fs, user = u\<rparr>)"
proof (intro conjI impI allI)
  assume h: "mset (employeeForms allForms e st) = {#a, b#} \<and>
    truthy (get a ''submissionDate'') \<and> new_Date pf (get a ''submissionDate'') = Some t1 \<and>
    truthy (get b ''submissionDate'') \<and> new_Date pf (get b ''submissionDate'') = Some t2 \<and>
    t1 < t2"
  then show "getLatestFormForEmployee pf allForms e st = b"
    by (blast intro: latest_of_pair)
  fix allForms'
  assume "mset allForms' = mset allForms"
  then have "mset (employeeForms allForms' e st) = {#a, b#}"
    using h mset_employeeForms [of allForms' allForms e st] by simp
  with h show "getLatestFormForEmployee pf allForms' e st = b"
    by (blast intro: latest_of_pair)
next
  show "getLatestFormForEmployee pf allForms e st = JNull \<longleftrightarrow>
      employeeForms allForms e st = []"
    by (rule latest_null_iff)
next
  assume n: "truthy u \<and> truthy (js_or (get u ''id'') (get u ''employeeId'')) \<and>
    getLatestFormForEmployee pf (loadCollection pf fs PENDING_FORMS)
      (js_or (get u ''id'') (get u ''employeeId'')) None = JNull"
  then have m: "employeeForms (loadCollection pf fs PENDING_FORMS)
      (js_or (get u ''id'') (get u ''employeeId'')) None = []"
    by (simp add: latest_null_iff)
  from n m show "previous_application pf fs u =
        Json 200 (JObj [(''success'', JBool True), (''hasApplication'', JBool False),
                        (''message'', JStr ''No applications found'')])"
    by (simp add: previous_none)
  from n m show "final_submit pf now fs body u =
        \<lparr>reply = Json 404 (JObj [(''success'', JBool False),
                                 (''message'',
                                    JStr ''No pending form found for this employee'')]),
         disk = fs, user = u\<rparr>"
    by (simp add: final_submit_none answer_def failure_def)
qed

theorem latest_case_resolution_witness:
  "mset (employeeForms
           [sample_case ''F2'' ''E1'' ''pending'' ''2024-01-02T00:00:00.000Z'',
            sample_case ''F9'' ''E2'' ''pending'' ''2024-01-03T00:00:00.000Z'',
            sample_case ''F1'' ''E1'' ''rejected'' ''2024-01-01T00:00:00.000Z'']
           (JStr ''E1'') None)
     = {#sample_case ''F1'' ''E1'' ''rejected'' ''2024-01-01T00:00:00.000Z'',
         sample_case ''F2'' ''E1'' ''pending'' ''2024-01-02T00:00:00.000Z''#} \<and>
   new_Date (sample_platform [])
     (get (sample_case ''F1'' ''E1'' ''rejected'' ''2024-01-01T00:00:00.000Z'') ''submissionDate'')
     = Some 1704067200000 \<and>
   new_Date (sample_platform [])
     (get (sample_case ''F2'' ''E1'' ''pending'' ''2024-01-02T00:00:00.000Z'') ''submissionDate'')
     = Some 1704153600000 \<and>
   getLatestFormForEmployee (sample_platform [])
     [sample_case ''F2'' ''E1'' ''pending'' ''2024-01-02T00:00:00.000Z'',
      sample_case ''F9'' ''E2'' ''pending'' ''2024-01-03T00:00:00.000Z'',
      sample_case ''F1'' ''E1'' ''rejected'' ''2024-01-01T00:00:00.000Z'']
     (JStr ''E1'') None
     = sample_case ''F2'' ''E1'' ''pending'' ''2024-01-02T00:00:00.000Z'' \<and>
   getLatestFormForEmployee (sample_platform [])
     [sample_case ''F1'' ''E1'' ''rejected'' ''2024-01-01T00:00:00.000Z'',
      sample_case ''F2'' ''E1'' ''pending'' ''2024-01-02T00:00:00.000Z'',
      sample_case ''F9'' ''E2'' ''pending'' ''2024-01-03T00:00:00.000Z'']
     (JStr ''E1'') None
     = sample_case ''F2'' ''E1'' ''pending'' ''2024-01-02T00:00:00.000Z'' \<and>
   getLatestFormForEmployee (sample_platform [])
     (loadCollection (sample_platform []) (sample_disk []) PENDING_FORMS)
     (js_or (get (JObj [(''id'', JStr ''E1'')]) ''id'')
            (get (JObj [(''id'', JStr ''E1'')]) ''employeeId'')) None = JNull \<and>
   previous_application (sample_platform []) (sample_disk []) (JObj [(''id'', JStr ''E1'')]) =
     Json 200 (JObj [(''success'', JBool True), (''hasApplication'', JBool False),
                     (''message'', JStr ''No applications found'')]) \<and>
   final_submit (sample_platform []) 1704240000000 (sample_disk [])
     (JObj [(''disposalForm'', JObj [(''item'', JStr ''laptop'')])])
     (JObj [(''id'', JStr ''E1'')]) =
     \<lparr>reply = Json 404 (JObj [(''success'', JBool False),
                              (''message'', JStr ''No pending form found for this employee'')]),
      disk = sample_disk [], user = JObj [(''id'', JStr ''E1'')]\<rparr>"
proof -
  let ?f1 = "sample_case ''F1'' ''E1'' ''rejected'' ''2024-01-01T00:00:00.000Z''"
  let ?f2 = "sample_case ''F2'' ''E1'' ''pending'' ''2024-01-02T00:00:00.000Z''"
  let ?f9 = "sample_case ''F9'' ''E2'' ''pending'' ''2024-01-03T00:00:00.000Z''"
  let ?u = "JObj [(''id'', JStr ''E1'')]"
  have m: "mset (employeeForms [?f2, ?f9, ?f1] (JStr ''E1'') None) = {#?f1, ?f2#}"
    by (simp add: employeeForms_def sample_case_def strict_eq_def)
  have p: "mset [?f1, ?f2, ?f9] = mset [?f2, ?f9, ?f1]"
    by (simp add: add_mset_commute)
  have d1: "truthy (get ?f1 ''submissionDate'')"
    "new_Date (sample_platform []) (get ?f1 ''submissionDate'') = Some 1704067200000"
    by (simp_all add: sample_case_def new_Date_def sample_platform_def sample_dates_def)
  have d2: "truthy (get ?f2 ''submissionDate'')"
    "new_Date (sample_platform []) (get ?f2 ''submissionDate'') = Some 1704153600000"
    by (simp_all add: sample_case_def new_Date_def sample_platform_def sample_dates_def)
  have c: "loadCollection (sample_platform []) (sample_disk []) PENDING_FORMS = []"
    by (simp add: loadCollection_def loadJSON_def try_catch_def existsSync_def sample_disk_def)
  have n: "truthy ?u" "truthy (js_or (get ?u ''id'') (get ?u ''employeeId''))"
    "getLatestFormForEmployee (sample_platform [])
       (loadCollection (sample_platform []) (sample_disk []) PENDING_FORMS)
       (js_or (get ?u ''id'') (get ?u ''employeeId'')) None = JNull"
    unfolding c by (simp_all add: js_or_def getLatestFormForEmployee_def employeeForms_def)
  show ?thesis
    using m p d1 d2 n
      latest_case_resolution [of "[?f2, ?f9, ?f1]" "JStr ''E1''" None ?f1 ?f2
        "sample_platform []" 1704067200000 1704153600000 ?u "sample_disk []"
        1704240000000 "JObj [(''disposalForm'', JObj [(''item'', JStr ''laptop'')])]"]
    by simp
qed

text \<open>
  The claim says that callers treat null as no current case and never as an error.
  The session's employee E1 has no case in a store that holds a case of E2, the
  resolution is null, and the final-submit route answers a complete payload with the
  error 404.
\<close>

theorem latest_case_resolution_counterexample:
  "getLatestFormForEmployee
     (sample_platform
        [(''store'', JArr [sample_case ''F9'' ''E2'' ''pending'' ''2024-01-03T00:00:00.000Z''])])
     (loadCollection
        (sample_platform
           [(''store'', JArr [sample_case ''F9'' ''E2'' ''pending''
                                ''2024-01-03T00:00:00.000Z''])])
        (sample_disk [(PENDING_FORMS, ''store'')]) PENDING_FORMS)
     (JStr ''E1'') None = JNull \<and>
   reply (final_submit
            (sample_platform
               [(''store'', JArr [sample_case ''F9'' ''E2'' ''pending''
                                    ''2024-01-03T00:00:00.000Z''])])
            1704240000000 (sample_disk [(PENDING_FORMS, ''store'')])
            (JObj [(''disposalForm'', JObj [(''item'', JStr ''laptop'')]),
                   (''efileForm'', JObj [(''files'', JNum 2)]),
                   (''form365Transfer'', JObj [(''to'', JStr ''HQ'')])])
            (JObj [(''id'', JStr ''E1'')]))
   = Json 404 (JObj [(''success'', JBool False),
                     (''message'', JStr ''No pending form found for this employee'')])"
proof -
  let ?c = "sample_case ''F9'' ''E2'' ''pending'' ''2024-01-03T00:00:00.000Z''"
  let ?pf = "sample_platform [(''store'', JArr [?c])]"
  let ?fs = "sample_disk [(PENDING_FORMS, ''store'')]"
  let ?u = "JObj [(''id'', JStr ''E1'')]"
  have c: "loadCollection ?pf ?fs PENDING_FORMS = [?c]"
    by (simp add: loadCollection_def loadJSON_def try_catch_def bind_e_def existsSync_def
          readFileSync_def sample_disk_def sample_platform_def)
  have e: "employeeForms [?c] (JStr ''E1'') None = []"
    by (simp add: employeeForms_def sample_case_def strict_eq_def)
  have l: "getLatestFormForEmployee ?pf [?c] (JStr ''E1'') None = JNull"
    using e by (rule latest_none)
  have t: "truthy ?u" "js_or (get ?u ''id'') (get ?u ''employeeId'') = JStr ''E1''"
    by (simp_all add: js_or_def)
  have "final_submit ?pf 1704240000000 ?fs
            (JObj [(''disposalForm'', JObj [(''item'', JStr ''laptop'')]),
                   (''efileForm'', JObj [(''files'', JNum 2)]),
                   (''form365Transfer'', JObj [(''to'', JStr ''HQ'')])]) ?u
        = answer (failure 404 ''No pending form found for this employee'') ?fs ?u"
    by (rule final_submit_none) (simp_all add: t c e del: get.simps)
  then show ?thesis
    unfolding c l by (simp add: answer_def failure_def)
qed

section \<open>Submitting a new case\<close>

lemma latest_member:
  assumes "employeeForms allForms e st \<noteq> []"
  shows "getLatestFormForEmployee pf allForms e st \<in> set (employeeForms allForms e st)"
proof -
  let ?s = "js_sort (\<lambda>a b. later (formDate pf b) (formDate pf a)) (employeeForms allForms e st)"
  from assms have "?s \<noteq> []" by (simp add: js_sort_Nil_iff)
  then obtain f r where s: "?s = f # r" by (cases ?s) auto
  then have "f \<in> set ?s" by simp
  then have m: "f \<in> set (employeeForms allForms e st)" by (simp add: set_js_sort)
  then have "truthy f" by (rule employeeForms_truthy)
  with s m show ?thesis by (simp add: getLatestFormForEmployee_def js_or_def)
qed

lemma latest_truthy_iff:
  "truthy (getLatestFormForEmployee pf allForms e st) \<longleftrightarrow> employeeForms allForms e st \<noteq> []"
proof
  assume "truthy (getLatestFormForEmployee pf allForms e st)"
  then show "employeeForms allForms e st \<noteq> []" by (auto simp: latest_none)
next
  assume "employeeForms allForms e st \<noteq> []"
  then show "truthy (getLatestFormForEmployee pf allForms e st)"
    by (blast dest: latest_member employeeForms_truthy)
qed

lemma active_candidates:
  "set (employeeForms allForms e (Some sts)) =
   {f \<in> set allForms. truthy f \<and> strict_eq (get f ''employeeId'') e \<and>
                        includes_str sts (get f ''status'')}"
  by (auto simp: employeeForms_def)

lemma includes_str_cases:
  "includes_str sts v \<longleftrightarrow> (\<exists>s. v = JStr s \<and> s \<in> set sts)"
  by (cases v) auto


lemma submit_conflict_reply:
  assumes "truthy body" "truthy u" "truthy upload"
    and "truthy (submitName body u)" "truthy (submitEmployeeId body u)"
    and "truthy (get body ''email'')" "truthy (get body ''department'')"
    and "truthy (get body ''noDuesType'')"
    and "employeeForms (loadCollection pf fs PENDING_FORMS) (submitEmployeeId body u)
           (Some activeStatuses) \<noteq> []"
  shows "reply (submit_no_dues pf now fs body u upload) =
         failure 400 (conflictMessage
           (getLatestFormForEmployee pf (loadCollection pf fs PENDING_FORMS)
              (submitEmployeeId body u) (Some activeStatuses)))"
  using assms
  by (simp add: submit_no_dues_def Let_def js_or_def latest_truthy_iff answer_def)

lemma submit_fresh_outcome:
  assumes "truthy body" "truthy u" "truthy upload"
    and "truthy (submitName body u)" "truthy (submitEmployeeId body u)"
    and "truthy (get body ''email'')" "truthy (get body ''department'')"
    and "truthy (get body ''noDuesType'')"
    and "employeeForms (loadCollection pf fs PENDING_FORMS) (submitEmployeeId body u)
           (Some activeStatuses) = []"
  shows "submit_no_dues pf now fs body u upload =
     (if writable fs PENDING_FORMS
      then answer
             (Json 200 (JObj [(''success'', JBool True),
                              (''message'', JStr ''Application submitted successfully''),
                              (''formId'', JStr (newFormId now)),
                              (''status'', JStr ''pending'')]))
             (with_file fs PENDING_FORMS
                (JSON_stringify pf
                   (JArr (loadCollection pf fs PENDING_FORMS @
                      [mkNewForm pf now (submitName body u) (submitEmployeeId body u)
                         (get body ''email'') (get body ''department'')
                         (get body ''noDuesType'') (js_or (get body ''reason'') (JStr []))
                         upload]))))
             (put (put u ''formId'' (JStr (newFormId now)))
                  ''applicationStatus'' (JStr ''pending''))
      else answer (failure 500 ''Failed to save form'') fs u)"
  using assms
  by (simp add: submit_no_dues_def Let_def js_or_def latest_none saveJSON_eq)

text \<open>
  Claim C1, as the code has it. For a submission with its required fields and file,
  the reply is the conflict error, whose message carries the status and the formId of
  an existing case of that employee, exactly when the employee has a case whose
  status is one of the five strings of \<open>activeStatuses\<close> (pending is matched in the
  spellings \<^verbatim>\<open>pending\<close> and \<^verbatim>\<open>Pending\<close> only). Otherwise a new case with status
  pending is appended to the collection; the collection is written back and the
  reply is the success, or the write fails, the disk is unchanged and the reply is 500.
\<close>

theorem submission_conflict:
  assumes "truthy body" "truthy u" "truthy upload"
    and "truthy (submitName body u)" "truthy (submitEmployeeId body u)"
    and "truthy (get body ''email'')" "truthy (get body ''department'')"
    and "truthy (get body ''noDuesType'')"
  shows
    "((\<exists>f \<in> set (loadCollection pf fs PENDING_FORMS).
         truthy f \<and> strict_eq (get f ''employeeId'') (submitEmployeeId body u) \<and>
         (\<exists>s \<in> set activeStatuses. get f ''status'' = JStr s))
      \<longleftrightarrow>
      (\<exists>f \<in> set (loadCollection pf fs PENDING_FORMS). \<exists>s \<in> set activeStatuses.
         strict_eq (get f ''employeeId'') (submitEmployeeId body u) \<and>
         get f ''status'' = JStr s \<and>
         reply (submit_no_dues pf now fs body u upload) =
           failure 400 (''You already have a '' @ s @ '' application ('' @
                        to_str (get f ''formId'') @ '')'')))
     \<and>
     (\<not> (\<exists>f \<in> set (loadCollection pf fs PENDING_FORMS).
           truthy f \<and> strict_eq (get f ''employeeId'') (submitEmployeeId body u) \<and>
           (\<exists>s \<in> set activeStatuses. get f ''status'' = JStr s))
      \<longrightarrow>
      get (mkNewForm pf now (submitName body u) (submitEmployeeId body u)
             (get body ''email'') (get body ''department'') (get body ''noDuesType'')
             (js_or (get body ''reason'') (JStr [])) upload) ''status'' = JStr ''pending'' \<and>
      (writable fs PENDING_FORMS \<longrightarrow>
         reply (submit_no_dues pf now fs body u upload) =
           Json 200 (JObj [(''success'', JBool True),
                           (''message'', JStr ''Application submitted successfully''),
                           (''formId'', JStr (newFormId now)),
                           (''status'', JStr ''pending'')]) \<and>
         disk (submit_no_dues pf now fs body u upload) =
           with_file fs PENDING_FORMS
             (JSON_stringify pf
                (JArr (loadCollection pf fs PENDING_FORMS @
                   [mkNewForm pf now (submitName body u) (submitEmployeeId body u)
                      (get body ''email'') (get body ''department'')
                      (get body ''noDuesType'') (js_or (get body ''reason'') (JStr []))
                      upload])))) \<and>
      (\<not> writable fs PENDING_FORMS \<longrightarrow>
         reply (submit_no_dues pf now fs body u upload) = failure 500 ''Failed to save form'' \<and>
         disk (submit_no_dues pf now fs body u upload) = fs))"
proof -
  let ?forms = "loadCollection pf fs PENDING_FORMS"
  let ?e = "submitEmployeeId body u"
  let ?cands = "employeeForms ?forms ?e (Some activeStatuses)"
  let ?active = "\<exists>f \<in> set ?forms. truthy f \<and> strict_eq (get f ''employeeId'') ?e \<and>
         (\<exists>s \<in> set activeStatuses. get f ''status'' = JStr s)"
  let ?out = "submit_no_dues pf now fs body u upload"
  have act: "?active \<longleftrightarrow> ?cands \<noteq> []"
  proof -
    have "?cands \<noteq> [] \<longleftrightarrow> set ?cands \<noteq> {}" by simp
    also have "\<dots> \<longleftrightarrow> ?active"
      unfolding active_candidates includes_str_cases by blast
    finally show ?thesis by simp
  qed
  have fresh: "\<not> ?active \<Longrightarrow> ?out =
     (if writable fs PENDING_FORMS
      then answer
             (Json 200 (JObj [(''success'', JBool True),
                              (''message'', JStr ''Application submitted successfully''),
                              (''formId'', JStr (newFormId now)),
                              (''status'', JStr ''pending'')]))
             (with_file fs PENDING_FORMS
                (JSON_stringify pf
                   (JArr (?forms @
                      [mkNewForm pf now (submitName body u) ?e
                         (get body ''email'') (get body ''department'')
                         (get body ''noDuesType'') (js_or (get body ''reason'') (JStr []))
                         upload]))))
             (put (put u ''formId'' (JStr (newFormId now)))
                  ''applicationStatus'' (JStr ''pending''))
      else answer (failure 500 ''Failed to save form'') fs u)"
    using submit_fresh_outcome [OF assms, of pf fs now] act by simp
  have forward: "\<exists>f \<in> set ?forms. \<exists>s \<in> set activeStatuses.
         strict_eq (get f ''employeeId'') ?e \<and> get f ''status'' = JStr s \<and>
         reply ?out = failure 400 (''You already have a '' @ s @ '' application ('' @
                        to_str (get f ''formId'') @ '')'')" if a: ?active
  proof -
    let ?f = "getLatestFormForEmployee pf ?forms ?e (Some activeStatuses)"
    from a act have ne: "?cands \<noteq> []" by simp
    then have "?f \<in> set ?cands" by (rule latest_member)
    then have f: "?f \<in> set ?forms" "strict_eq (get ?f ''employeeId'') ?e"
      and "includes_str activeStatuses (get ?f ''status'')"
      by (simp_all add: active_candidates)
    then obtain s where s: "get ?f ''status'' = JStr s" "s \<in> set activeStatuses"
      by (auto simp: includes_str_cases)
    have "reply ?out = failure 400 (conflictMessage ?f)"
      using submit_conflict_reply [OF assms ne] .
    then have "reply ?out = failure 400 (''You already have a '' @ s @ '' application ('' @
                        to_str (get ?f ''formId'') @ '')'')"
      by (simp add: conflictMessage_def s)
    with f s show ?thesis by blast
  qed
  have backward: ?active if r: "\<exists>f \<in> set ?forms. \<exists>s \<in> set activeStatuses.
         strict_eq (get f ''employeeId'') ?e \<and> get f ''status'' = JStr s \<and>
         reply ?out = failure 400 (''You already have a '' @ s @ '' application ('' @
                        to_str (get f ''formId'') @ '')'')"
  proof (rule ccontr)
    assume "\<not> ?active"
    from fresh [OF this] r show False
      by (auto simp: answer_def failure_def split: if_splits)
  qed
  have st: "get (mkNewForm pf now (submitName body u) ?e
             (get body ''email'') (get body ''department'') (get body ''noDuesType'')
             (js_or (get body ''reason'') (JStr [])) upload) ''status'' = JStr ''pending''"
    by (simp add: mkNewForm_def)
  show ?thesis
  proof (intro conjI impI)
    show "?active \<longleftrightarrow> (\<exists>f \<in> set ?forms. \<exists>s \<in> set activeStatuses.
         strict_eq (get f ''employeeId'') ?e \<and> get f ''status'' = JStr s \<and>
         reply ?out = failure 400 (''You already have a '' @ s @ '' application ('' @
                        to_str (get f ''formId'') @ '')''))"
      using forward backward by blast
  qed (use fresh st in \<open>simp_all add: answer_def\<close>)
qed


theorem submission_conflict_witness:
  "truthy (JObj [(''name'', JStr ''Asha''), (''employeeId'', JStr ''E1''),
                 (''email'', JStr ''asha@example.org''), (''department'', JStr ''IT''),
                 (''noDuesType'', JStr ''Transfer'')]) \<and>
   truthy (JObj [(''id'', JStr ''E1'')]) \<and>
   truthy (JObj [(''filename'', JStr ''1704240000000-order.pdf'')]) \<and>
   (\<exists>f \<in> set [sample_case ''F1'' ''E1'' ''Submitted to HOD'' ''2024-01-01T00:00:00.000Z''].
      \<exists>s \<in> set activeStatuses.
        get f ''status'' = JStr s \<and>
        reply (submit_no_dues
                 (sample_platform
                    [(''store'', JArr [sample_case ''F1'' ''E1'' ''Submitted to HOD''
                                         ''2024-01-01T00:00:00.000Z''])])
                 1704240000000
                 (sample_disk [(PENDING_FORMS, ''store'')])
                 (JObj [(''name'', JStr ''Asha''), (''employeeId'', JStr ''E1''),
                        (''email'', JStr ''asha@example.org''), (''department'', JStr ''IT''),
                        (''noDuesType'', JStr ''Transfer'')])
                 (JObj [(''id'', JStr ''E1'')])
                 (JObj [(''filename'', JStr ''1704240000000-order.pdf'')]))
        = failure 400 (''You already have a '' @ s @ '' application ('' @
                       to_str (get f ''formId'') @ '')''))"
proof -
  let ?pf = "sample_platform
               [(''store'', JArr [sample_case ''F1'' ''E1'' ''Submitted to HOD''
                                    ''2024-01-01T00:00:00.000Z''])]"
  let ?fs = "sample_disk [(PENDING_FORMS, ''store'')]"
  let ?body = "JObj [(''name'', JStr ''Asha''), (''employeeId'', JStr ''E1''),
                     (''email'', JStr ''asha@example.org''), (''department'', JStr ''IT''),
                     (''noDuesType'', JStr ''Transfer'')]"
  let ?u = "JObj [(''id'', JStr ''E1'')]"
  let ?up = "JObj [(''filename'', JStr ''1704240000000-order.pdf'')]"
  have c: "loadCollection ?pf ?fs PENDING_FORMS =
           [sample_case ''F1'' ''E1'' ''Submitted to HOD'' ''2024-01-01T00:00:00.000Z'']"
    by (simp add: loadCollection_def loadJSON_def try_catch_def bind_e_def existsSync_def
          readFileSync_def sample_disk_def sample_platform_def)
  have e: "submitEmployeeId ?body ?u = JStr ''E1''" "submitName ?body ?u = JStr ''Asha''"
    by (simp_all add: submitEmployeeId_def submitName_def js_or_def)
  show ?thesis
    using submission_conflict [where body = ?body and u = ?u and upload = ?up
        and pf = ?pf and fs = ?fs and now = 1704240000000]
    unfolding c e
    by (simp add: sample_case_def strict_eq_def activeStatuses_def)
qed

text \<open>
  With pending matched in any letter case the statement fails: a stored case of the
  employee with the status PENDING is active in the specification's words, and the
  submission is accepted.
\<close>

theorem submission_conflict_counterexample:
  "spec_active_status ''PENDING'' \<and>
   loadCollection
     (sample_platform
        [(''store'', JArr [sample_case ''F1'' ''E1'' ''PENDING'' ''2024-01-01T00:00:00.000Z''])])
     (sample_disk [(PENDING_FORMS, ''store'')]) PENDING_FORMS
     = [sample_case ''F1'' ''E1'' ''PENDING'' ''2024-01-01T00:00:00.000Z''] \<and>
   reply (submit_no_dues
            (sample_platform
               [(''store'', JArr [sample_case ''F1'' ''E1'' ''PENDING''
                                    ''2024-01-01T00:00:00.000Z''])])
            1704240000000
            (sample_disk [(PENDING_FORMS, ''store'')])
            (JObj [(''name'', JStr ''Asha''), (''employeeId'', JStr ''E1''),
                   (''email'', JStr ''asha@example.org''), (''department'', JStr ''IT''),
                   (''noDuesType'', JStr ''Transfer'')])
            (JObj [(''id'', JStr ''E1'')])
            (JObj [(''filename'', JStr ''1704240000000-order.pdf'')]))
   = Json 200 (JObj [(''success'', JBool True),
                     (''message'', JStr ''Application submitted successfully''),
                     (''formId'', JStr ''F1704240000000''),
                     (''status'', JStr ''pending'')])"
proof -
  let ?pf = "sample_platform
               [(''store'', JArr [sample_case ''F1'' ''E1'' ''PENDING''
                                    ''2024-01-01T00:00:00.000Z''])]"
  let ?fs = "sample_disk [(PENDING_FORMS, ''store'')]"
  have c: "loadCollection ?pf ?fs PENDING_FORMS =
           [sample_case ''F1'' ''E1'' ''PENDING'' ''2024-01-01T00:00:00.000Z'']"
    by (simp add: loadCollection_def loadJSON_def try_catch_def bind_e_def existsSync_def
          readFileSync_def sample_disk_def sample_platform_def)
  have a: "spec_active_status ''PENDING''"
    by (simp add: spec_active_status_def lower_char_def)
  have n: "newFormId 1704240000000 = ''F1704240000000''"
    by (simp add: newFormId_def show_int_def digits.simps)
  show ?thesis
    unfolding submit_no_dues_def c
    using a
    by (simp add: Let_def n submitEmployeeId_def submitName_def js_or_def
          getLatestFormForEmployee_def employeeForms_def sample_case_def strict_eq_def
          activeStatuses_def saveJSON_eq sample_disk_def answer_def)
qed

section \<open>Final submit\<close>

lemma map_of_obj_set:
  "map_of (obj_set k v kvs) k' = (if k' = k then Some v else map_of kvs k')"
  by (induction kvs) auto

lemma get_put_obj:
  "get (put (JObj kvs) k v) k' = (if k' = k then v else get (JObj kvs) k')"
  by (simp add: map_of_obj_set)

lemma put_obj_is_obj: "\<exists>kvs'. put (JObj kvs) k v = JObj kvs'"
  by simp












section \<open>Archiving into the history\<close>

lemma get_newHistoryEntry:
  "get (newHistoryEntry pf now formData) ''preservedData'' = preservedData formData"
  "get (newHistoryEntry pf now formData) ''completedAt'' = JStr (toISOString pf now)"
  "get (newHistoryEntry pf now formData) ''finalStatus'' = get formData ''status''"
  by (simp_all add: newHistoryEntry_def object_with_def map_of_obj_set del: get.simps(2-))

lemma get_preservedData:
  "get (preservedData formData) ''certificates'' = js_or (get formData ''certificates'') (JArr [])"
  "get (preservedData formData) ''hodApproval'' = js_or (get formData ''hodApproval'') JNull"
  "get (preservedData formData) ''itProcessing'' = js_or (get formData ''itProcessing'') JNull"
  "get (preservedData formData) ''assignedForms'' = js_or (get formData ''assignedForms'') (JArr [])"
  "get (preservedData formData) ''formResponses'' = js_or (get formData ''formResponses'') (JObj [])"
  by (simp_all add: preservedData_def)

lemma move_outcome:
  "\<not> nullish formData \<Longrightarrow>
   moveCompletedFormToHistory pf now fs employeeId formData =
     (if writable fs FORM_HISTORY
      then Inr (True, with_file fs FORM_HISTORY
                        (JSON_stringify pf
                           (JArr (loadCollection pf fs FORM_HISTORY @
                                  [newHistoryEntry pf now formData]))))
      else Inr (False, fs))"
  by (simp add: moveCompletedFormToHistory_def get_e_def bind_e_def saveJSON_eq Let_def)

text \<open>
  Claim C5, as the code has it. The history entry built for a case carries, under
  \<open>preservedData\<close>, the case's certificates, hodApproval, itProcessing,
  assignedForms and formResponses unchanged whenever the field holds a truthy value.
  A field that holds a falsy value, be it absent or present as null, false, 0 or the
  empty string, is replaced by the empty list, null or the empty object. The entry
  records the final status and the time. The archive written is the loaded history
  with the entry appended at its end, so no earlier entry is changed or removed; when
  the write fails the function answers false and the disk is as before.
\<close>

theorem archival_preserves:
  assumes "\<not> nullish formData"
    and "entry = newHistoryEntry pf now formData"
    and "history = loadCollection pf fs FORM_HISTORY"
  shows
    "(\<forall>k \<in> {''certificates'', ''hodApproval'', ''itProcessing'', ''assignedForms'',
              ''formResponses''}.
        truthy (get formData k) \<longrightarrow> get (get entry ''preservedData'') k = get formData k) \<and>
     (\<not> truthy (get formData ''certificates'') \<longrightarrow>
        get (get entry ''preservedData'') ''certificates'' = JArr []) \<and>
     (\<not> truthy (get formData ''hodApproval'') \<longrightarrow>
        get (get entry ''preservedData'') ''hodApproval'' = JNull) \<and>
     (\<not> truthy (get formData ''itProcessing'') \<longrightarrow>
        get (get entry ''preservedData'') ''itProcessing'' = JNull) \<and>
     (\<not> truthy (get formData ''assignedForms'') \<longrightarrow>
        get (get entry ''preservedData'') ''assignedForms'' = JArr []) \<and>
     (\<not> truthy (get formData ''formResponses'') \<longrightarrow>
        get (get entry ''preservedData'') ''formResponses'' = JObj []) \<and>
     get entry ''finalStatus'' = get formData ''status'' \<and>
     get entry ''completedAt'' = JStr (toISOString pf now) \<and>
     (writable fs FORM_HISTORY \<longrightarrow>
        moveCompletedFormToHistory pf now fs employeeId formData =
          Inr (True, with_file fs FORM_HISTORY (JSON_stringify pf (JArr (history @ [entry]))))) \<and>
     (\<not> writable fs FORM_HISTORY \<longrightarrow>
        moveCompletedFormToHistory pf now fs employeeId formData = Inr (False, fs))"
  unfolding assms(2,3)
  using move_outcome [OF assms(1), of pf now fs employeeId]
  by (simp add: get_newHistoryEntry get_preservedData js_or_def del: get.simps)


theorem archival_preserves_witness:
  "\<not> nullish
      (JObj [(''formId'', JStr ''F1''), (''employeeId'', JStr ''E1''),
             (''status'', JStr ''IT Completed''),
             (''certificates'', JArr [JObj [(''formType'', JStr ''disposalForm''),
                                             (''filename'', JStr ''F1_disposalForm.pdf'')]]),
             (''hodApproval'', JObj [(''approvedBy'', JStr ''H1'')]),
             (''formResponses'', JObj [(''disposalFormData'', JObj [])])]) \<and>
   get (get (newHistoryEntry (sample_platform []) 1704240000000
          (JObj [(''formId'', JStr ''F1''), (''employeeId'', JStr ''E1''),
                 (''status'', JStr ''IT Completed''),
                 (''certificates'', JArr [JObj [(''formType'', JStr ''disposalForm''),
                                                 (''filename'', JStr ''F1_disposalForm.pdf'')]]),
                 (''hodApproval'', JObj [(''approvedBy'', JStr ''H1'')]),
                 (''formResponses'', JObj [(''disposalFormData'', JObj [])])]))
        ''preservedData'') ''certificates''
     = JArr [JObj [(''formType'', JStr ''disposalForm''),
                   (''filename'', JStr ''F1_disposalForm.pdf'')]] \<and>
   get (get (newHistoryEntry (sample_platform []) 1704240000000
          (JObj [(''formId'', JStr ''F1''), (''employeeId'', JStr ''E1''),
                 (''status'', JStr ''IT Completed''),
                 (''certificates'', JArr [JObj [(''formType'', JStr ''disposalForm''),
                                                 (''filename'', JStr ''F1_disposalForm.pdf'')]]),
                 (''hodApproval'', JObj [(''approvedBy'', JStr ''H1'')]),
                 (''formResponses'', JObj [(''disposalFormData'', JObj [])])]))
        ''preservedData'') ''itProcessing'' = JNull \<and>
   moveCompletedFormToHistory (sample_platform []) 1704240000000 (sample_disk []) (JStr ''E1'')
     (JObj [(''formId'', JStr ''F1''), (''employeeId'', JStr ''E1''),
            (''status'', JStr ''IT Completed''),
            (''certificates'', JArr [JObj [(''formType'', JStr ''disposalForm''),
                                            (''filename'', JStr ''F1_disposalForm.pdf'')]]),
            (''hodApproval'', JObj [(''approvedBy'', JStr ''H1'')]),
            (''formResponses'', JObj [(''disposalFormData'', JObj [])])])
   = Inr (True,
          with_file (sample_disk []) FORM_HISTORY
            (JSON_stringify (sample_platform [])
               (JArr ([] @
                  [newHistoryEntry (sample_platform []) 1704240000000
                     (JObj [(''formId'', JStr ''F1''), (''employeeId'', JStr ''E1''),
                            (''status'', JStr ''IT Completed''),
                            (''certificates'',
                               JArr [JObj [(''formType'', JStr ''disposalForm''),
                                           (''filename'', JStr ''F1_disposalForm.pdf'')]]),
                            (''hodApproval'', JObj [(''approvedBy'', JStr ''H1'')]),
                            (''formResponses'', JObj [(''disposalFormData'', JObj [])])])]))))"
proof -
  let ?f = "JObj [(''formId'', JStr ''F1''), (''employeeId'', JStr ''E1''),
             (''status'', JStr ''IT Completed''),
             (''certificates'', JArr [JObj [(''formType'', JStr ''disposalForm''),
                                             (''filename'', JStr ''F1_disposalForm.pdf'')]]),
             (''hodApproval'', JObj [(''approvedBy'', JStr ''H1'')]),
             (''formResponses'', JObj [(''disposalFormData'', JObj [])])]"
  have n: "\<not> nullish ?f" by simp
  have h: "loadCollection (sample_platform []) (sample_disk []) FORM_HISTORY = []"
    by (simp add: loadCollection_def loadJSON_def try_catch_def existsSync_def sample_disk_def)
  have w: "writable (sample_disk []) FORM_HISTORY" by (simp add: sample_disk_def)
  have g: "truthy (get ?f ''certificates'')" "\<not> truthy (get ?f ''itProcessing'')"
    "get ?f ''certificates'' = JArr [JObj [(''formType'', JStr ''disposalForm''),
                                            (''filename'', JStr ''F1_disposalForm.pdf'')]]"
    by simp_all
  show ?thesis
    using archival_preserves [OF n refl refl, of "sample_platform []" 1704240000000
        "sample_disk []" "JStr ''E1''"] w g n
    unfolding h
    by (simp del: get.simps)
qed

text \<open>
  The claim says that the defaults stand in only for a field that is absent. This
  case holds hodApproval false, formResponses the empty string, assignedForms 0 and
  certificates null, all four present, and its history entry holds null, the empty
  object and the empty list in their place.
\<close>

theorem archival_preserves_counterexample:
  "set [''certificates'', ''hodApproval'', ''assignedForms'', ''formResponses'']
     \<subseteq> set (object_keys
           (JObj [(''formId'', JStr ''F1''), (''employeeId'', JStr ''E1''),
                  (''status'', JStr ''rejected''),
                  (''certificates'', JNull),
                  (''hodApproval'', JBool False),
                  (''assignedForms'', JNum 0),
                  (''formResponses'', JStr '''')])) \<and>
   get (JObj [(''formId'', JStr ''F1''), (''employeeId'', JStr ''E1''),
              (''status'', JStr ''rejected''),
              (''certificates'', JNull),
              (''hodApproval'', JBool False),
              (''assignedForms'', JNum 0),
              (''formResponses'', JStr '''')]) ''hodApproval'' = JBool False \<and>
   get (newHistoryEntry (sample_platform []) 1704240000000
          (JObj [(''formId'', JStr ''F1''), (''employeeId'', JStr ''E1''),
                 (''status'', JStr ''rejected''),
                 (''certificates'', JNull),
                 (''hodApproval'', JBool False),
                 (''assignedForms'', JNum 0),
                 (''formResponses'', JStr '''')]))
       ''preservedData''
     = JObj [(''certificates'', JArr []),
             (''hodApproval'', JNull),
             (''itProcessing'', JNull),
             (''assignedForms'', JArr []),
             (''formResponses'', JObj [])] \<and>
   moveCompletedFormToHistory (sample_platform []) 1704240000000 (sample_disk []) (JStr ''E1'')
     (JObj [(''formId'', JStr ''F1''), (''employeeId'', JStr ''E1''),
            (''status'', JStr ''rejected''),
            (''certificates'', JNull),
            (''hodApproval'', JBool False),
            (''assignedForms'', JNum 0),
            (''formResponses'', JStr '''')])
   = Inr (True,
          with_file (sample_disk []) FORM_HISTORY
            (JSON_stringify (sample_platform [])
               (JArr [newHistoryEntry (sample_platform []) 1704240000000
                        (JObj [(''formId'', JStr ''F1''), (''employeeId'', JStr ''E1''),
                               (''status'', JStr ''rejected''),
                               (''certificates'', JNull),
                               (''hodApproval'', JBool False),
                               (''assignedForms'', JNum 0),
                               (''formResponses'', JStr '''')])])))"
proof -
  let ?f = "JObj [(''formId'', JStr ''F1''), (''employeeId'', JStr ''E1''),
                  (''status'', JStr ''rejected''),
                  (''certificates'', JNull),
                  (''hodApproval'', JBool False),
                  (''assignedForms'', JNum 0),
                  (''formResponses'', JStr '''')]"
  have k: "set [''certificates'', ''hodApproval'', ''assignedForms'', ''formResponses'']
             \<subseteq> set (object_keys ?f)"
    by (simp add: object_keys_def)
  have g: "get ?f ''hodApproval'' = JBool False" by simp
  have p: "get (newHistoryEntry (sample_platform []) 1704240000000 ?f) ''preservedData''
     = JObj [(''certificates'', JArr []),
             (''hodApproval'', JNull),
             (''itProcessing'', JNull),
             (''assignedForms'', JArr []),
             (''formResponses'', JObj [])]"
    unfolding get_newHistoryEntry by (simp add: preservedData_def js_or_def)
  have h: "loadCollection (sample_platform []) (sample_disk []) FORM_HISTORY = []"
    by (simp add: loadCollection_def loadJSON_def try_catch_def existsSync_def sample_disk_def)
  have w: "writable (sample_disk []) FORM_HISTORY" by (simp add: sample_disk_def)
  have n: "\<not> nullish ?f" by simp
  have m: "moveCompletedFormToHistory (sample_platform []) 1704240000000 (sample_disk [])
             (JStr ''E1'') ?f
     = Inr (True,
          with_file (sample_disk []) FORM_HISTORY
            (JSON_stringify (sample_platform [])
               (JArr [newHistoryEntry (sample_platform []) 1704240000000 ?f])))"
    unfolding move_outcome [OF n] h using w by simp
  from k g p m show ?thesis by blast
qed

section \<open>The certificate pipeline\<close>

lemma pipelineResults_shape:
  "pipelineResults pf env formId rs = Inr results \<Longrightarrow>
     results = map (certificateFor pf env formId rs) (validFormTypes rs)"
  by (auto simp: pipelineResults_def split: if_splits)














section \<open>Certificate file names\<close>

text \<open>
  Claim C7, evaluated on the code. The path of a certificate is a function of the
  form id, the form type and the millisecond at which the file is named: the random
  id computed beside it does not enter the name. Two generations for the case F1 and
  the form type disposalFormData that read the clock in the same millisecond, with
  different random bytes and different data, both resolve to one and the same path.
\<close>

theorem certificate_name_collision:
  "certificatePath pf (env\<lparr>randomBytes := r1\<rparr>) formId formType
     = certificatePath pf (env\<lparr>randomBytes := r2\<rparr>) formId formType \<and>
   createFormCertificatePDF (sample_platform [])
     ((sample_pdf_env [])\<lparr>randomBytes := (\<lambda>t. ''0011223344556677'')\<rparr>)
     (JStr ''F1'') ''disposalFormData'' (JObj [(''item'', JStr ''laptop'')])
     = Inr ''public/certificates/F1_disposalFormData_1704240000000_d41d8cd9.pdf'' \<and>
   createFormCertificatePDF (sample_platform [])
     ((sample_pdf_env [])\<lparr>randomBytes := (\<lambda>t. ''8899aabbccddeeff'')\<rparr>)
     (JStr ''F1'') ''disposalFormData'' (JObj [(''item'', JStr ''monitor'')])
     = Inr ''public/certificates/F1_disposalFormData_1704240000000_d41d8cd9.pdf''"
proof -
  have s: "sanitizeText (JStr ''F1'') = ''F1''"
    "sanitizeText (JStr ''disposalFormData'') = ''disposalFormData''"
    by (simp_all add: sanitizeText_def controlChar_def printableChar_def trim_def spaceChar_def)
  have p: "certificatePath (sample_platform []) ((sample_pdf_env [])\<lparr>randomBytes := r\<rparr>)
             (JStr ''F1'') ''disposalFormData''
           = ''public/certificates/F1_disposalFormData_1704240000000_d41d8cd9.pdf''" for r
    by (simp add: certificatePath_def certificateFileName_def sample_pdf_env_def
          sample_platform_def s show_int_def digits.simps)
  have c: "createFormCertificatePDF (sample_platform [])
             ((sample_pdf_env [])\<lparr>randomBytes := r\<rparr>) (JStr ''F1'') ''disposalFormData'' d
           = Inr ''public/certificates/F1_disposalFormData_1704240000000_d41d8cd9.pdf''" for r d
    unfolding createFormCertificatePDF_def p s
    by (simp add: sample_pdf_env_def maxSize_def)
  have g: "certificatePath pf (env\<lparr>randomBytes := r1\<rparr>) formId formType
     = certificatePath pf (env\<lparr>randomBytes := r2\<rparr>) formId formType"
    by (simp add: certificatePath_def certificateFileName_def)
  from g c show ?thesis by simp
qed

section \<open>Downloading a certificate\<close>

lemma find_e_hit: "find_e p xs = Inr (Some x) \<Longrightarrow> p x = Inr True"
  by (induction xs) (auto simp: bind_e_def split: sum.splits if_splits)

lemma ownedBy_true:
  "ownedBy e v = Inr True \<Longrightarrow> strict_eq (get v ''employeeId'') e"
  by (auto simp: ownedBy_def get_e_def bind_e_def split: if_splits)

lemma findActive_owned:
  assumes "truthy (findActive pf fs e c)"
  shows "strict_eq (get (findActive pf fs e c) ''employeeId'') e"
proof -
  let ?p = "\<lambda>cert. bind_e (get_e cert ''id'')
                          (\<lambda>i. if strict_eq i (JStr c) then ownedBy e cert else Inr False)"
  from assms obtain data cert where f: "find_e ?p data = Inr (Some cert)"
    and r: "findActive pf fs e c = cert"
    by (auto simp: findActive_def split: sum.splits jv.splits option.splits)
  from find_e_hit [OF f] have "ownedBy e cert = Inr True"
    by (auto simp: bind_e_def split: sum.splits if_splits)
  then show ?thesis unfolding r by (rule ownedBy_true)
qed

lemma get_object_with3:
  "get (object_with v [(k1, v1), (k2, v2), (k3, v3)]) k =
     (if k = k3 then v3 else if k = k2 then v2 else if k = k1 then v1
      else get (JObj (spread v)) k)"
  by (simp add: object_with_def map_of_obj_set)

lemma searchCertificates_owner:
  "searchCertificates h c certs = Inr (Some f) \<Longrightarrow> get f ''employeeId'' = get h ''employeeId''"
proof (induction certs)
  case Nil
  then show ?case by simp
next
  case (Cons cert certs)
  then show ?case
    by (auto simp: bind_e_def get_object_with3 simp del: get.simps
          split: sum.splits if_splits)
qed

lemma searchHistory_owned:
  "searchHistory e c hs = Inr (Some f) \<Longrightarrow> strict_eq (get f ''employeeId'') e"
proof (induction hs)
  case Nil
  then show ?case by simp
next
  case (Cons h hs)
  show ?case
  proof (cases "ownedWithCertificates e h")
    case (Inl err)
    with Cons.prems show ?thesis by (simp add: bind_e_def)
  next
    case (Inr owned)
    show ?thesis
    proof (cases owned)
      case False
      with Inr Cons show ?thesis by (simp add: bind_e_def)
    next
      case True
      with Inr have o: "strict_eq (get h ''employeeId'') e"
        by (auto simp: ownedWithCertificates_def get_e_def bind_e_def split: if_splits)
      from Cons.prems Inr True
      consider certs where "searchCertificates h c certs = Inr (Some f)"
        | "searchHistory e c hs = Inr (Some f)"
        by (auto simp: bind_e_def split: sum.splits option.splits)
      then show ?thesis
      proof cases
        case 1
        with o show ?thesis by (simp add: searchCertificates_owner del: get.simps)
      next
        case 2
        then show ?thesis by (rule Cons.IH)
      qed
    qed
  qed
qed

lemma findCertificate_owned:
  assumes "truthy (findCertificate pf fs e c)"
  shows "strict_eq (get (findCertificate pf fs e c) ''employeeId'') e"
proof -
  have "findCertificate pf fs e c = findActive pf fs e c \<or>
        (\<exists>hs. searchHistory e c hs = Inr (Some (findCertificate pf fs e c)))"
  proof (cases "\<not> truthy (findActive pf fs e c) \<and> take 5 c = ''hist_''")
    case False
    then show ?thesis by (auto simp: findCertificate_def Let_def)
  next
    case True
    then have u: "findCertificate pf fs e c =
        (case loadJSON pf fs FORM_HISTORY of
           Inr (JArr historyData) \<Rightarrow>
             (case searchHistory e c historyData of
                Inr (Some found) \<Rightarrow> found
              | _ \<Rightarrow> findActive pf fs e c)
         | _ \<Rightarrow> findActive pf fs e c)"
      by (simp add: findCertificate_def Let_def)
    show ?thesis
      unfolding u
      by (simp split: sum.splits jv.splits option.splits) blast
  qed
  then consider "findCertificate pf fs e c = findActive pf fs e c"
    | hs where "searchHistory e c hs = Inr (Some (findCertificate pf fs e c))"
    by blast
  then show ?thesis
  proof cases
    case 1
    with assms show ?thesis by (simp add: findActive_owned del: get.simps)
  next
    case 2
    then show ?thesis by (rule searchHistory_owned)
  qed
qed

lemma download_never_forbidden: "certificate_download pf fs u c \<noteq> Json 403 b"
  by (auto simp: certificate_download_def Let_def failure_def findCertificate_owned
        simp del: get.simps split: jv.splits option.splits fnode.splits)


text \<open>
  Claim C8, evaluated on the code. The download route never answers 403: both
  look-ups keep only records of the requesting employee, so the certificate found
  always belongs to the requester and the ownership check after them cannot fail. A
  request of employee E1 for the certificate C1 of employee E2, or for the historical
  certificate of E2's case F2, is answered 404 with the message of a certificate that
  does not exist, the same reply as for the unknown id C9; the owner E2 gets the file.
\<close>

theorem download_of_foreign_certificate:
  "(\<forall>b. certificate_download pf fs u c \<noteq> Json 403 b) \<and>
   certificate_download
     (sample_platform
        [(''certs'', JArr [JObj [(''id'', JStr ''C1''), (''employeeId'', JStr ''E2''),
                                  (''formType'', JStr ''disposalForm''), (''filename'', JStr ''a.pdf''),
                                  (''filepath'', JStr ''public/certificates/a.pdf'')]]),
         (''hist'', JArr [JObj [(''formId'', JStr ''F2''), (''employeeId'', JStr ''E2''),
                                 (''preservedData'',
                                    JObj [(''certificates'',
                                             JArr [JObj [(''formType'', JStr ''disposalForm''),
                                                         (''filepath'',
                                                            JStr ''public/certificates/a.pdf'')]])])]])])
     (sample_disk [(CERTIFICATES, ''certs''), (FORM_HISTORY, ''hist''),
                   (''public/certificates/a.pdf'', ''%PDF'')])
     (JObj [(''id'', JStr ''E1'')]) ''C1''
   = failure 404 ''Certificate not found'' \<and>
   certificate_download
     (sample_platform
        [(''certs'', JArr [JObj [(''id'', JStr ''C1''), (''employeeId'', JStr ''E2''),
                                  (''formType'', JStr ''disposalForm''), (''filename'', JStr ''a.pdf''),
                                  (''filepath'', JStr ''public/certificates/a.pdf'')]]),
         (''hist'', JArr [JObj [(''formId'', JStr ''F2''), (''employeeId'', JStr ''E2''),
                                 (''preservedData'',
                                    JObj [(''certificates'',
                                             JArr [JObj [(''formType'', JStr ''disposalForm''),
                                                         (''filepath'',
                                                            JStr ''public/certificates/a.pdf'')]])])]])])
     (sample_disk [(CERTIFICATES, ''certs''), (FORM_HISTORY, ''hist''),
                   (''public/certificates/a.pdf'', ''%PDF'')])
     (JObj [(''id'', JStr ''E1'')]) ''hist_F2_disposalForm''
   = failure 404 ''Certificate not found'' \<and>
   certificate_download
     (sample_platform
        [(''certs'', JArr [JObj [(''id'', JStr ''C1''), (''employeeId'', JStr ''E2''),
                                  (''formType'', JStr ''disposalForm''), (''filename'', JStr ''a.pdf''),
                                  (''filepath'', JStr ''public/certificates/a.pdf'')]]),
         (''hist'', JArr [JObj [(''formId'', JStr ''F2''), (''employeeId'', JStr ''E2''),
                                 (''preservedData'',
                                    JObj [(''certificates'',
                                             JArr [JObj [(''formType'', JStr ''disposalForm''),
                                                         (''filepath'',
                                                            JStr ''public/certificates/a.pdf'')]])])]])])
     (sample_disk [(CERTIFICATES, ''certs''), (FORM_HISTORY, ''hist''),
                   (''public/certificates/a.pdf'', ''%PDF'')])
     (JObj [(''id'', JStr ''E1'')]) ''C9''
   = failure 404 ''Certificate not found'' \<and>
   certificate_download
     (sample_platform
        [(''certs'', JArr [JObj [(''id'', JStr ''C1''), (''employeeId'', JStr ''E2''),
                                  (''formType'', JStr ''disposalForm''), (''filename'', JStr ''a.pdf''),
                                  (''filepath'', JStr ''public/certificates/a.pdf'')]]),
         (''hist'', JArr [JObj [(''formId'', JStr ''F2''), (''employeeId'', JStr ''E2''),
                                 (''preservedData'',
                                    JObj [(''certificates'',
                                             JArr [JObj [(''formType'', JStr ''disposalForm''),
                                                         (''filepath'',
                                                            JStr ''public/certificates/a.pdf'')]])])]])])
     (sample_disk [(CERTIFICATES, ''certs''), (FORM_HISTORY, ''hist''),
                   (''public/certificates/a.pdf'', ''%PDF'')])
     (JObj [(''id'', JStr ''E2'')]) ''C1''
   = Download ''a.pdf'' ''%PDF''"
proof -
  let ?cert = "JObj [(''id'', JStr ''C1''), (''employeeId'', JStr ''E2''),
                     (''formType'', JStr ''disposalForm''), (''filename'', JStr ''a.pdf''),
                     (''filepath'', JStr ''public/certificates/a.pdf'')]"
  let ?h = "JObj [(''formId'', JStr ''F2''), (''employeeId'', JStr ''E2''),
                  (''preservedData'',
                     JObj [(''certificates'',
                              JArr [JObj [(''formType'', JStr ''disposalForm''),
                                          (''filepath'', JStr ''public/certificates/a.pdf'')]])])]"
  let ?pf = "sample_platform [(''certs'', JArr [?cert]), (''hist'', JArr [?h])]"
  let ?fs = "sample_disk [(CERTIFICATES, ''certs''), (FORM_HISTORY, ''hist''),
                          (''public/certificates/a.pdf'', ''%PDF'')]"
  have l: "loadJSON ?pf ?fs CERTIFICATES = Inr (JArr [?cert])"
    "loadJSON ?pf ?fs FORM_HISTORY = Inr (JArr [?h])"
    by (simp_all add: loadJSON_def try_catch_def bind_e_def existsSync_def readFileSync_def
          sample_disk_def sample_platform_def CERTIFICATES_def FORM_HISTORY_def)
  have n: "nodes ?fs ''public/certificates/a.pdf'' = Some (File ''%PDF'')"
    by (simp add: sample_disk_def CERTIFICATES_def FORM_HISTORY_def)
  have a1: "findActive ?pf ?fs (JStr ''E1'') ''C1'' = JUndefined"
    and a2: "findActive ?pf ?fs (JStr ''E1'') ''hist_F2_disposalForm'' = JUndefined"
    and a3: "findActive ?pf ?fs (JStr ''E1'') ''C9'' = JUndefined"
    and a4: "findActive ?pf ?fs (JStr ''E2'') ''C1'' = ?cert"
    unfolding findActive_def l
    by (simp_all add: bind_e_def get_e_def ownedBy_def strict_eq_def)
  have h2: "searchHistory (JStr ''E1'') ''hist_F2_disposalForm'' [?h] = Inr None"
    by (simp add: bind_e_def get_e_def ownedWithCertificates_def strict_eq_def)
  have f: "findCertificate ?pf ?fs (JStr ''E1'') ''C1'' = JUndefined"
    "findCertificate ?pf ?fs (JStr ''E1'') ''hist_F2_disposalForm'' = JUndefined"
    "findCertificate ?pf ?fs (JStr ''E1'') ''C9'' = JUndefined"
    "findCertificate ?pf ?fs (JStr ''E2'') ''C1'' = ?cert"
    unfolding findCertificate_def a1 a2 a3 a4 l
    by (simp_all add: h2 del: searchHistory.simps)
  have d: "certificate_download ?pf ?fs (JObj [(''id'', JStr ''E1'')]) ''C1''
             = failure 404 ''Certificate not found''"
    "certificate_download ?pf ?fs (JObj [(''id'', JStr ''E1'')]) ''hist_F2_disposalForm''
             = failure 404 ''Certificate not found''"
    "certificate_download ?pf ?fs (JObj [(''id'', JStr ''E1'')]) ''C9''
             = failure 404 ''Certificate not found''"
    "certificate_download ?pf ?fs (JObj [(''id'', JStr ''E2'')]) ''C1''
             = Download ''a.pdf'' ''%PDF''"
    unfolding certificate_download_def
    by (simp_all add: js_or_def f n strict_eq_def)
  from d download_never_forbidden [of pf fs u c] show ?thesis by blast
qed

section \<open>The timeline\<close>

lemma insert_by_ascending:
  assumes "sorted (map (\<lambda>e. the (d e)) ys)" and "\<forall>y \<in> set ys. d y \<noteq> None"
    and "d x \<noteq> None"
  shows "sorted (map (\<lambda>e. the (d e)) (insert_by (\<lambda>a b. later (d a) (d b)) x ys))"
  using assms
proof (induction ys)
  case Nil
  then show ?case by simp
next
  case (Cons y ys)
  then obtain a b where ab: "d x = Some a" "d y = Some b" by auto
  have ih: "sorted (map (\<lambda>e. the (d e)) (insert_by (\<lambda>a b. later (d a) (d b)) x ys))"
    using Cons by simp
  have ys: "\<forall>z \<in> set ys. b \<le> the (d z)" using Cons.prems(1) ab by simp
  show ?case
  proof (cases "b < a")
    case True
    then have "\<forall>z \<in> set (insert_by (\<lambda>a b. later (d a) (d b)) x ys). b \<le> the (d z)"
      using ys ab by (simp add: set_insert_by)
    with True ih ab show ?thesis by simp
  next
    case False
    then have "a \<le> b" by simp
    with ys have "\<forall>z \<in> set ys. a \<le> the (d z)" by force
    with False ab Cons.prems(1) show ?thesis by simp
  qed
qed

lemma js_sort_ascending:
  "\<forall>x \<in> set xs. d x \<noteq> None \<Longrightarrow>
   sorted (map (\<lambda>e. the (d e)) (js_sort (\<lambda>a b. later (d a) (d b)) xs))"
  by (induction xs) (simp_all add: insert_by_ascending set_js_sort)



lemma timeline_sorted:
  assumes "buildTimelineData pf now f = Inr tline" and "\<forall>e \<in> set tline. eventDate pf e \<noteq> None"
  shows "sorted (map (\<lambda>e. the (eventDate pf e)) tline)"
proof -
  from assms(1) obtain evs where e: "timelineEvents pf now f = Inr evs"
    and t: "tline = js_sort (\<lambda>a b. later (eventDate pf a) (eventDate pf b)) evs"
    by (auto simp: buildTimelineData_def bind_e_def split: sum.splits)
  from assms(2) have "\<forall>e \<in> set evs. eventDate pf e \<noteq> None"
    unfolding t by (simp add: set_js_sort)
  then show ?thesis unfolding t by (rule js_sort_ascending)
qed

lemma timeline_clock:
  assumes "\<not> (strict_eq (get f ''status'') (JStr ''IT Completed'') \<and>
              truthy (get f ''certificates'') \<and>
              \<not> truthy (get_opt (get f ''itProcessing'') ''processedAt''))"
  shows "buildTimelineData pf now f = buildTimelineData pf now' f"
proof -
  have g: "(if strict_eq (get f ''status'') (JStr ''IT Completed'') \<and>
               truthy (get f ''certificates'')
            then [event s t (js_or (get_opt (get f ''itProcessing'') ''processedAt'')
                               (JStr (toISOString pf now))) c d]
            else [])
         = (if strict_eq (get f ''status'') (JStr ''IT Completed'') \<and>
               truthy (get f ''certificates'')
            then [event s t (js_or (get_opt (get f ''itProcessing'') ''processedAt'')
                               (JStr (toISOString pf now'))) c d]
            else [])" for s t c d
    using assms by (auto simp: js_or_def simp del: get.simps)
  have "timelineEvents pf now f = timelineEvents pf now' f"
    unfolding timelineEvents_def Let_def g by (rule refl)
  then show ?thesis by (simp add: buildTimelineData_def)
qed


lemma timeline_events_fresh:
  assumes st: "get f ''status'' = JStr ''pending''"
    and sd: "truthy (get f ''submissionDate'')"
    and af: "get f ''assignedForms'' = JArr [] \<or> get f ''assignedForms'' = JUndefined"
    and fr: "get f ''formResponses'' = JObj [] \<or> get f ''formResponses'' = JUndefined"
    and it: "get f ''itProcessing'' = JUndefined"
  shows "timelineEvents pf now f =
           Inr (submittedEvent f #
                (if truthy (get f ''hodApproval'') then [approvedEvent f] else []))"
proof -
  have a: "(truthy (get f ''assignedForms'') \<and> gt0 pf (get (get f ''assignedForms'') ''length''))
           = False"
    using af by (auto simp: gt0_def)
  have r: "(truthy (get f ''formResponses'') \<and> object_keys (get f ''formResponses'') \<noteq> [])
           = False"
    using fr by (auto simp: object_keys_def)
  have s: "strict_eq (get f ''status'') (JStr ''pending'')"
    "\<not> strict_eq (get f ''status'') (JStr ''IT Completed'')"
    using st by (simp_all add: strict_eq_def)
  have i: "\<not> truthy (get f ''itProcessing'')" using it by simp
  show ?thesis
    unfolding timelineEvents_def Let_def submittedEvent_def approvedEvent_def a r
    using s i sd by (simp add: bind_e_def del: get.simps)
qed


lemma eventDate_event: "eventDate pf (event s t d st x) = new_Date pf d"
  by (simp add: eventDate_def event_def)

text \<open>
  Claim C6, as the code has it. The timeline of a case does not depend on the clock
  unless the case is IT Completed with certificates and without
  \<open>itProcessing.processedAt\<close>, where the last event is dated by the clock. A timeline
  all of whose events carry a date that parses is sorted ascending by these dates. A
  pending case with a submission date, no assigned forms, no form responses and no
  IT processing has exactly one event, the submission, when it has no HOD approval,
  and exactly two events when it has one, the later-dated of the two second.
\<close>

theorem timeline_builder:
  "(\<not> (strict_eq (get f ''status'') (JStr ''IT Completed'') \<and>
        truthy (get f ''certificates'') \<and>
        \<not> truthy (get_opt (get f ''itProcessing'') ''processedAt'')) \<longrightarrow>
      buildTimelineData pf now f = buildTimelineData pf now' f) \<and>
   (\<forall>tline. buildTimelineData pf now f = Inr tline \<and>
             (\<forall>e \<in> set tline. eventDate pf e \<noteq> None) \<longrightarrow>
      sorted (map (\<lambda>e. the (eventDate pf e)) tline)) \<and>
   (get f ''status'' = JStr ''pending'' \<and> truthy (get f ''submissionDate'') \<and>
    (get f ''assignedForms'' = JArr [] \<or> get f ''assignedForms'' = JUndefined) \<and>
    (get f ''formResponses'' = JObj [] \<or> get f ''formResponses'' = JUndefined) \<and>
    get f ''itProcessing'' = JUndefined \<longrightarrow>
      (\<not> truthy (get f ''hodApproval'') \<longrightarrow>
         buildTimelineData pf now f = Inr [submittedEvent f]) \<and>
      (truthy (get f ''hodApproval'') \<longrightarrow>
         buildTimelineData pf now f =
           Inr (if later (new_Date pf (get f ''submissionDate''))
                         (new_Date pf (get (get f ''hodApproval'') ''approvedAt''))
                then [approvedEvent f, submittedEvent f]
                else [submittedEvent f, approvedEvent f])))"
proof (intro conjI impI allI)
  assume "\<not> (strict_eq (get f ''status'') (JStr ''IT Completed'') \<and>
        truthy (get f ''certificates'') \<and>
        \<not> truthy (get_opt (get f ''itProcessing'') ''processedAt''))"
  then show "buildTimelineData pf now f = buildTimelineData pf now' f"
    by (rule timeline_clock)
next
  fix tline
  assume "buildTimelineData pf now f = Inr tline \<and>
             (\<forall>e \<in> set tline. eventDate pf e \<noteq> None)"
  then show "sorted (map (\<lambda>e. the (eventDate pf e)) tline)"
    using timeline_sorted by blast
next
  assume h: "get f ''status'' = JStr ''pending'' \<and> truthy (get f ''submissionDate'') \<and>
    (get f ''assignedForms'' = JArr [] \<or> get f ''assignedForms'' = JUndefined) \<and>
    (get f ''formResponses'' = JObj [] \<or> get f ''formResponses'' = JUndefined) \<and>
    get f ''itProcessing'' = JUndefined"
  then have e: "timelineEvents pf now f =
           Inr (submittedEvent f #
                (if truthy (get f ''hodApproval'') then [approvedEvent f] else []))"
    using timeline_events_fresh [of f pf now] by blast
  {
    assume "\<not> truthy (get f ''hodApproval'')"
    then show "buildTimelineData pf now f = Inr [submittedEvent f]"
      by (simp add: buildTimelineData_def e bind_e_def del: get.simps)
  next
    assume "truthy (get f ''hodApproval'')"
    then show "buildTimelineData pf now f =
           Inr (if later (new_Date pf (get f ''submissionDate''))
                         (new_Date pf (get (get f ''hodApproval'') ''approvedAt''))
                then [approvedEvent f, submittedEvent f]
                else [submittedEvent f, approvedEvent f])"
      by (simp add: buildTimelineData_def e bind_e_def eventDate_event submittedEvent_def
            approvedEvent_def del: get.simps)
  }
qed


theorem timeline_builder_witness:
  "buildTimelineData (sample_platform []) 1704240000000
     (JObj [(''formId'', JStr ''F1''), (''employeeId'', JStr ''E1''),
            (''noDuesType'', JStr ''Transfer''), (''status'', JStr ''pending''),
            (''submissionDate'', JStr ''2024-01-01T00:00:00.000Z''),
            (''lastUpdated'', JStr ''2024-01-01T00:00:00.000Z''),
            (''assignedForms'', JArr []), (''formResponses'', JObj [])])
   = Inr [event ''submitted'' ''Application Submitted'' (JStr ''2024-01-01T00:00:00.000Z'')
            ''completed'' (JStr ''Application F1 submitted for Transfer clearance'')] \<and>
   buildTimelineData (sample_platform []) 1704240000000
     (JObj [(''formId'', JStr ''F1''), (''employeeId'', JStr ''E1''),
            (''noDuesType'', JStr ''Transfer''), (''status'', JStr ''pending''),
            (''submissionDate'', JStr ''2024-01-02T00:00:00.000Z''),
            (''lastUpdated'', JStr ''2024-01-02T00:00:00.000Z''),
            (''assignedForms'', JArr []), (''formResponses'', JObj []),
            (''hodApproval'', JObj [(''approvedBy'', JStr ''H1''),
                                    (''approvedAt'', JStr ''2024-01-01T00:00:00.000Z'')])])
   = Inr [event ''hod_approved'' ''HOD Approval'' (JStr ''2024-01-01T00:00:00.000Z'')
            ''completed'' (JStr ''Approved by HOD: H1''),
          event ''submitted'' ''Application Submitted'' (JStr ''2024-01-02T00:00:00.000Z'')
            ''completed'' (JStr ''Application F1 submitted for Transfer clearance'')] \<and>
   sorted (map (\<lambda>e. the (eventDate (sample_platform []) e))
     [event ''hod_approved'' ''HOD Approval'' (JStr ''2024-01-01T00:00:00.000Z'')
        ''completed'' (JStr ''Approved by HOD: H1''),
      event ''submitted'' ''Application Submitted'' (JStr ''2024-01-02T00:00:00.000Z'')
        ''completed'' (JStr ''Application F1 submitted for Transfer clearance'')])"
proof -
  let ?pf = "sample_platform []"
  let ?f1 = "JObj [(''formId'', JStr ''F1''), (''employeeId'', JStr ''E1''),
            (''noDuesType'', JStr ''Transfer''), (''status'', JStr ''pending''),
            (''submissionDate'', JStr ''2024-01-01T00:00:00.000Z''),
            (''lastUpdated'', JStr ''2024-01-01T00:00:00.000Z''),
            (''assignedForms'', JArr []), (''formResponses'', JObj [])]"
  let ?f2 = "JObj [(''formId'', JStr ''F1''), (''employeeId'', JStr ''E1''),
            (''noDuesType'', JStr ''Transfer''), (''status'', JStr ''pending''),
            (''submissionDate'', JStr ''2024-01-02T00:00:00.000Z''),
            (''lastUpdated'', JStr ''2024-01-02T00:00:00.000Z''),
            (''assignedForms'', JArr []), (''formResponses'', JObj []),
            (''hodApproval'', JObj [(''approvedBy'', JStr ''H1''),
                                    (''approvedAt'', JStr ''2024-01-01T00:00:00.000Z'')])]"
  let ?a = "event ''hod_approved'' ''HOD Approval'' (JStr ''2024-01-01T00:00:00.000Z'')
              ''completed'' (JStr ''Approved by HOD: H1'')"
  let ?s = "event ''submitted'' ''Application Submitted'' (JStr ''2024-01-02T00:00:00.000Z'')
              ''completed'' (JStr ''Application F1 submitted for Transfer clearance'')"
  have d: "new_Date ?pf (JStr ''2024-01-01T00:00:00.000Z'') = Some 1704067200000"
    "new_Date ?pf (JStr ''2024-01-02T00:00:00.000Z'') = Some 1704153600000"
    by (simp_all add: new_Date_def sample_platform_def sample_dates_def)
  have e: "submittedEvent ?f1 =
      event ''submitted'' ''Application Submitted'' (JStr ''2024-01-01T00:00:00.000Z'')
        ''completed'' (JStr ''Application F1 submitted for Transfer clearance'')"
    "submittedEvent ?f2 = ?s" "approvedEvent ?f2 = ?a"
    by (simp_all add: submittedEvent_def approvedEvent_def)
  have one: "buildTimelineData ?pf 1704240000000 ?f1 = Inr [submittedEvent ?f1]"
    using timeline_builder [of ?f1 ?pf 1704240000000 1704240000000] by simp
  have two: "buildTimelineData ?pf 1704240000000 ?f2 = Inr [?a, ?s]"
    using timeline_builder [of ?f2 ?pf 1704240000000 1704240000000]
    unfolding e by (simp add: d)
  have "\<forall>e \<in> set [?a, ?s]. eventDate ?pf e \<noteq> None"
    by (simp add: eventDate_event d)
  with two have sorted: "sorted (map (\<lambda>e. the (eventDate ?pf e)) [?a, ?s])"
    using timeline_builder [of ?f2 ?pf 1704240000000 1704240000000] by blast
  from one two sorted show ?thesis unfolding e by blast
qed


text \<open>
  The statement fails in three places. The record of a completed case without
  \<open>itProcessing\<close> gives a different timeline on the second and on the third of
  January, since the last event is dated by the clock. A record whose review event has
  no date comes out with the event of the second of January before the event of the
  first. A record in which only \<open>submissionDate\<close> is set, without a status, has two
  events.
\<close>

theorem timeline_builder_counterexample:
  "buildTimelineData (sample_platform []) 1704153600000
     (JObj [(''formId'', JStr ''F1''), (''noDuesType'', JStr ''Transfer''),
            (''status'', JStr ''IT Completed''),
            (''submissionDate'', JStr ''2024-01-01T00:00:00.000Z''),
            (''lastUpdated'', JStr ''2024-01-01T00:00:00.000Z''),
            (''certificates'', JArr [])])
   = Inr [event ''submitted'' ''Application Submitted'' (JStr ''2024-01-01T00:00:00.000Z'')
            ''completed'' (JStr ''Application F1 submitted for Transfer clearance''),
          event ''it_reviewed'' ''IT Initial Review'' (JStr ''2024-01-01T00:00:00.000Z'')
            ''completed'' (JStr ''Application reviewed and approved by IT department''),
          event ''certificates_generated'' ''Certificates Generated'' (JStr ''2024-01-02T00:00:00.000Z'')
            ''completed'' (JStr ''0 digital certificates generated and ready for download'')] \<and>
   buildTimelineData (sample_platform []) 1704240000000
     (JObj [(''formId'', JStr ''F1''), (''noDuesType'', JStr ''Transfer''),
            (''status'', JStr ''IT Completed''),
            (''submissionDate'', JStr ''2024-01-01T00:00:00.000Z''),
            (''lastUpdated'', JStr ''2024-01-01T00:00:00.000Z''),
            (''certificates'', JArr [])])
   = Inr [event ''submitted'' ''Application Submitted'' (JStr ''2024-01-01T00:00:00.000Z'')
            ''completed'' (JStr ''Application F1 submitted for Transfer clearance''),
          event ''it_reviewed'' ''IT Initial Review'' (JStr ''2024-01-01T00:00:00.000Z'')
            ''completed'' (JStr ''Application reviewed and approved by IT department''),
          event ''certificates_generated'' ''Certificates Generated'' (JStr ''2024-01-03T00:00:00.000Z'')
            ''completed'' (JStr ''0 digital certificates generated and ready for download'')] \<and>
   buildTimelineData (sample_platform []) 1704153600000
     (JObj [(''formId'', JStr ''F1''), (''noDuesType'', JStr ''Transfer''),
            (''status'', JStr ''IT Completed''),
            (''submissionDate'', JStr ''2024-01-01T00:00:00.000Z''),
            (''lastUpdated'', JStr ''2024-01-01T00:00:00.000Z''),
            (''certificates'', JArr [])])
   \<noteq> buildTimelineData (sample_platform []) 1704240000000
     (JObj [(''formId'', JStr ''F1''), (''noDuesType'', JStr ''Transfer''),
            (''status'', JStr ''IT Completed''),
            (''submissionDate'', JStr ''2024-01-01T00:00:00.000Z''),
            (''lastUpdated'', JStr ''2024-01-01T00:00:00.000Z''),
            (''certificates'', JArr [])]) \<and>
   buildTimelineData (sample_platform []) 1704240000000
     (JObj [(''formId'', JStr ''F1''), (''noDuesType'', JStr ''Transfer''),
            (''status'', JStr ''approved''),
            (''submissionDate'', JStr ''2024-01-02T00:00:00.000Z''),
            (''hodApproval'', JObj [(''approvedBy'', JStr ''H1''),
                                    (''approvedAt'', JStr ''2024-01-01T00:00:00.000Z'')])])
   = Inr [event ''submitted'' ''Application Submitted'' (JStr ''2024-01-02T00:00:00.000Z'')
            ''completed'' (JStr ''Application F1 submitted for Transfer clearance''),
          event ''it_reviewed'' ''IT Initial Review'' JUndefined
            ''completed'' (JStr ''Application reviewed and approved by IT department''),
          event ''hod_approved'' ''HOD Approval'' (JStr ''2024-01-01T00:00:00.000Z'')
            ''completed'' (JStr ''Approved by HOD: H1'')] \<and>
   buildTimelineData (sample_platform []) 1704240000000
     (JObj [(''formId'', JStr ''F1''), (''noDuesType'', JStr ''Transfer''),
            (''submissionDate'', JStr ''2024-01-01T00:00:00.000Z'')])
   = Inr [event ''submitted'' ''Application Submitted'' (JStr ''2024-01-01T00:00:00.000Z'')
            ''completed'' (JStr ''Application F1 submitted for Transfer clearance''),
          event ''it_reviewed'' ''IT Initial Review'' JUndefined
            ''completed'' (JStr ''Application reviewed and approved by IT department'')]"
proof -
  let ?pf = "sample_platform []"
  have d: "new_Date ?pf (JStr ''2024-01-01T00:00:00.000Z'') = Some 1704067200000"
    "new_Date ?pf (JStr ''2024-01-02T00:00:00.000Z'') = Some 1704153600000"
    "new_Date ?pf (JStr ''2024-01-03T00:00:00.000Z'') = Some 1704240000000"
    "new_Date ?pf JUndefined = None"
    "toISOString ?pf 1704153600000 = ''2024-01-02T00:00:00.000Z''"
    "toISOString ?pf 1704240000000 = ''2024-01-03T00:00:00.000Z''"
    by (simp_all add: new_Date_def sample_platform_def sample_dates_def)
  have a: "buildTimelineData ?pf 1704153600000
     (JObj [(''formId'', JStr ''F1''), (''noDuesType'', JStr ''Transfer''),
            (''status'', JStr ''IT Completed''),
            (''submissionDate'', JStr ''2024-01-01T00:00:00.000Z''),
            (''lastUpdated'', JStr ''2024-01-01T00:00:00.000Z''),
            (''certificates'', JArr [])])
   = Inr [event ''submitted'' ''Application Submitted'' (JStr ''2024-01-01T00:00:00.000Z'')
            ''completed'' (JStr ''Application F1 submitted for Transfer clearance''),
          event ''it_reviewed'' ''IT Initial Review'' (JStr ''2024-01-01T00:00:00.000Z'')
            ''completed'' (JStr ''Application reviewed and approved by IT department''),
          event ''certificates_generated'' ''Certificates Generated'' (JStr ''2024-01-02T00:00:00.000Z'')
            ''completed'' (JStr ''0 digital certificates generated and ready for download'')]"
    unfolding buildTimelineData_def timelineEvents_def Let_def d
    by (simp add: bind_e_def js_or_def strict_eq_def get_opt_def gt0_def object_keys_def
          eventDate_event d show_int_def digits.simps)
  have b: "buildTimelineData ?pf 1704240000000
     (JObj [(''formId'', JStr ''F1''), (''noDuesType'', JStr ''Transfer''),
            (''status'', JStr ''IT Completed''),
            (''submissionDate'', JStr ''2024-01-01T00:00:00.000Z''),
            (''lastUpdated'', JStr ''2024-01-01T00:00:00.000Z''),
            (''certificates'', JArr [])])
   = Inr [event ''submitted'' ''Application Submitted'' (JStr ''2024-01-01T00:00:00.000Z'')
            ''completed'' (JStr ''Application F1 submitted for Transfer clearance''),
          event ''it_reviewed'' ''IT Initial Review'' (JStr ''2024-01-01T00:00:00.000Z'')
            ''completed'' (JStr ''Application reviewed and approved by IT department''),
          event ''certificates_generated'' ''Certificates Generated'' (JStr ''2024-01-03T00:00:00.000Z'')
            ''completed'' (JStr ''0 digital certificates generated and ready for download'')]"
    unfolding buildTimelineData_def timelineEvents_def Let_def d
    by (simp add: bind_e_def js_or_def strict_eq_def get_opt_def gt0_def object_keys_def
          eventDate_event d show_int_def digits.simps)
  have c: "buildTimelineData ?pf 1704240000000
     (JObj [(''formId'', JStr ''F1''), (''noDuesType'', JStr ''Transfer''),
            (''status'', JStr ''approved''),
            (''submissionDate'', JStr ''2024-01-02T00:00:00.000Z''),
            (''hodApproval'', JObj [(''approvedBy'', JStr ''H1''),
                                    (''approvedAt'', JStr ''2024-01-01T00:00:00.000Z'')])])
   = Inr [event ''submitted'' ''Application Submitted'' (JStr ''2024-01-02T00:00:00.000Z'')
            ''completed'' (JStr ''Application F1 submitted for Transfer clearance''),
          event ''it_reviewed'' ''IT Initial Review'' JUndefined
            ''completed'' (JStr ''Application reviewed and approved by IT department''),
          event ''hod_approved'' ''HOD Approval'' (JStr ''2024-01-01T00:00:00.000Z'')
            ''completed'' (JStr ''Approved by HOD: H1'')]"
    unfolding buildTimelineData_def timelineEvents_def Let_def d
    by (simp add: bind_e_def js_or_def strict_eq_def get_opt_def gt0_def object_keys_def
          eventDate_event d)
  have e: "buildTimelineData ?pf 1704240000000
     (JObj [(''formId'', JStr ''F1''), (''noDuesType'', JStr ''Transfer''),
            (''submissionDate'', JStr ''2024-01-01T00:00:00.000Z'')])
   = Inr [event ''submitted'' ''Application Submitted'' (JStr ''2024-01-01T00:00:00.000Z'')
            ''completed'' (JStr ''Application F1 submitted for Transfer clearance''),
          event ''it_reviewed'' ''IT Initial Review'' JUndefined
            ''completed'' (JStr ''Application reviewed and approved by IT department'')]"
    unfolding buildTimelineData_def timelineEvents_def Let_def d
    by (simp add: bind_e_def js_or_def strict_eq_def get_opt_def gt0_def object_keys_def
          eventDate_event d)
  have n: "buildTimelineData ?pf 1704153600000
     (JObj [(''formId'', JStr ''F1''), (''noDuesType'', JStr ''Transfer''),
            (''status'', JStr ''IT Completed''),
            (''submissionDate'', JStr ''2024-01-01T00:00:00.000Z''),
            (''lastUpdated'', JStr ''2024-01-01T00:00:00.000Z''),
            (''certificates'', JArr [])])
   \<noteq> buildTimelineData ?pf 1704240000000
     (JObj [(''formId'', JStr ''F1''), (''noDuesType'', JStr ''Transfer''),
            (''status'', JStr ''IT Completed''),
            (''submissionDate'', JStr ''2024-01-01T00:00:00.000Z''),
            (''lastUpdated'', JStr ''2024-01-01T00:00:00.000Z''),
            (''certificates'', JArr [])])"
    unfolding a b by (simp add: event_def)
  from a b c e n show ?thesis by blast
qed

section \<open>Listing the certificates\<close>

















end
